theory Spec2Isabelle
  imports Complex_Main
begin

section \<open>Investment simulator: financial math, cycle simulator, DCA mirror\<close>

text \<open>
  A shallow embedding of \<^verbatim>\<open>app.py\<close>: the three functions of the financial math
  (\<^verbatim>\<open>compound_growth\<close>, \<^verbatim>\<open>annual_rate2mensual_rate\<close>, \<^verbatim>\<open>monthly_repayment\<close>), the
  simulator \<^verbatim>\<open>simulate_multi_cycle_strategy_detailed\<close>, the cycle constructor
  \<^verbatim>\<open>add_cycle\<close> and the derivation \<^verbatim>\<open>build_dca_cycles_from_lumpsum\<close>.

  Numbers. Python floats are modelled as the real numbers: rounding, overflow and NaN are
  not represented, so every equation below is an equation of exact arithmetic. Python
  ints (ages, year counts, month counts) are \<open>int\<close> or, where the program only ever
  holds a non-negative count, \<open>nat\<close>.
\<close>

subsection \<open>Financial math\<close>

text \<open>
  \<^verbatim>\<open>def compound_growth(principal, monthly_rate, months=1):
      return principal * (1 + monthly_rate) ** months\<close>
  The number of months is a non-negative whole number at every call (the simulator
  passes 1). The parameter \<^verbatim>\<open>principal\<close> is written \<open>capital\<close>: the name is taken in HOL.
\<close>

definition compound_growth :: "real \<Rightarrow> real \<Rightarrow> nat \<Rightarrow> real" where
  "compound_growth capital monthly_rate months = capital * (1 + monthly_rate) ^ months"

text \<open>
  \<^verbatim>\<open>def annual_rate2mensual_rate(annual_rate):
      return (1 + annual_rate) ** (1/12) - 1\<close>
  For \<open>1 + annual_rate < 0\<close> Python's \<^verbatim>\<open>**\<close> leaves the floats (the result is a
  complex number); the real-valued model is the program's value for
  \<open>annual_rate \<ge> -1\<close> only, and says nothing of the program below that. The input form
  restricts the rate to \<open>[0, 1]\<close>.
\<close>

definition annual_rate2mensual_rate :: "real \<Rightarrow> real" where
  "annual_rate2mensual_rate annual_rate = (1 + annual_rate) powr (1 / 12) - 1"

text \<open>
  The two operations of \<^verbatim>\<open>monthly_repayment\<close> that can raise: a float raised to an int
  power and float division. \<^verbatim>\<open>0.0 ** n\<close> with \<open>n < 0\<close> raises \<^verbatim>\<open>ZeroDivisionError\<close>, and
  \<^verbatim>\<open>x ** n\<close> raises \<^verbatim>\<open>OverflowError\<close> when the result is beyond the largest double,
  \<open>float_max\<close>; the model decides the overflow on the exact value, so rounding at the
  threshold itself is not represented. \<^verbatim>\<open>int(x)\<close> truncates
  towards zero.

  \<open>ComplexValue\<close> is not an exception: it marks a result that is a complex number in the
  program, which this real-valued model does not represent.
\<close>

datatype py_error = ZeroDivisionError | OverflowError | ComplexValue

definition float_max :: real where
  "float_max = (2 - 1 / 2 ^ 52) * 2 ^ 1023"

definition py_int :: "real \<Rightarrow> int" where
  "py_int x = (if 0 \<le> x then \<lfloor>x\<rfloor> else \<lceil>x\<rceil>)"

definition float_pow :: "real \<Rightarrow> int \<Rightarrow> py_error + real" where
  "float_pow x n =
     (if x = 0 \<and> n < 0 then Inl ZeroDivisionError
      else if float_max < \<bar>x powi n\<bar> then Inl OverflowError
      else Inr (x powi n))"

definition float_div :: "real \<Rightarrow> real \<Rightarrow> py_error + real" where
  "float_div a b = (if b = 0 then Inl ZeroDivisionError else Inr (a / b))"

text \<open>
  \<^verbatim>\<open>def monthly_repayment(principal, annual_interest_rate, years):
      monthly_interest_rate = annual_rate2mensual_rate(annual_interest_rate)
      n_months = int(years * 12)
      if n_months == 0:
          return 0.0
      if monthly_interest_rate == 0:
          return principal / n_months
      numerator = monthly_interest_rate * (1 + monthly_interest_rate) ** n_months
      denominator = (1 + monthly_interest_rate) ** n_months - 1
      return principal * (numerator / denominator)\<close>
  The power is computed twice in the source, with the same operands; the model binds it
  once.

  For \<open>1 + annual_interest_rate < 0\<close> the converted rate is a complex number in the
  program, and with it every value computed from it: the model stops there with
  \<open>ComplexValue\<close>, after the early return for \<open>n_months = 0\<close>, which the program takes first.

  The product \<open>years * 12\<close> is exact here. The program's product is exact for an int
  argument (the input form's case) and for a float with a whole value or a dyadic fraction
  such as \<open>1/32\<close>; for other floats it is rounded before \<^verbatim>\<open>int\<close> truncates it, and the
  month count of the model can be one less than the program's (at the double nearest to
  \<open>1/12\<close>, for one). The statements below about \<open>monthly_repayment\<close> are about arguments
  of the first kind.
\<close>

definition monthly_repayment :: "real \<Rightarrow> real \<Rightarrow> real \<Rightarrow> py_error + real" where
  "monthly_repayment capital annual_interest_rate years =
     (let monthly_interest_rate = annual_rate2mensual_rate annual_interest_rate;
          n_months = py_int (years * 12)
      in if n_months = 0 then Inr 0
         else if 1 + annual_interest_rate < 0 then Inl ComplexValue
         else if monthly_interest_rate = 0 then Inr (capital / real_of_int n_months)
         else (case float_pow (1 + monthly_interest_rate) n_months of
                 Inl e \<Rightarrow> Inl e
               | Inr pw \<Rightarrow>
                   (let numerator = monthly_interest_rate * pw;
                        denominator = pw - 1
                    in case float_div numerator denominator of
                         Inl e \<Rightarrow> Inl e
                       | Inr q \<Rightarrow> Inr (capital * q))))"

subsection \<open>Data model\<close>

text \<open>
  A cycle is the dict built by \<^verbatim>\<open>add_cycle\<close>. The two durations come from integer
  inputs with \<^verbatim>\<open>min_value=0\<close> and bound \<^verbatim>\<open>range\<close>, so they are natural numbers.
\<close>

record cycle =
  loan_amount :: real
  loan_interest_rate :: real
  loan_repayment_years :: nat
  monthly_contribution :: real
  contribution_years :: nat
  m_repayment :: real

text \<open>One dict of \<^verbatim>\<open>annual_details\<close>.\<close>

record year_record =
  year_index :: nat
  age_end :: int
  portfolio_before :: real
  out_of_pocket_year :: real
  portfolio_after :: real
  roi_year :: real
  delta_year :: real
  net_gains_end_of_year :: real

text \<open>The local variables of the simulator that live across iterations.\<close>

record sim_state =
  total_portfolio :: real
  total_external_investment :: real
  current_age :: int
  ages :: "int list"
  net_gains_annual :: "real list"
  annual_details :: "year_record list"

text \<open>The returned tuple, with its components named.\<close>

record sim_result =
  ages_out :: "int list"
  net_gains_out :: "real list"
  final_portfolio :: real
  final_net_gains :: real
  details_out :: "year_record list"

subsection \<open>Cycle simulator\<close>

text \<open>
  One iteration of \<^verbatim>\<open>for _ in range(12)\<close>, on the pair
  \<open>(out_of_pocket_year, total_portfolio)\<close>, the only variables the month loop writes:
  \<^verbatim>\<open>if year_index < loan_repayment_years:
      out_of_pocket_year += m_repayment
  if year_index < contribution_years:
      out_of_pocket_year += monthly_contribution
      total_portfolio += monthly_contribution
  total_portfolio = compound_growth(total_portfolio, monthly_investment_rate, 1)\<close>
\<close>

definition month_step :: "cycle \<Rightarrow> real \<Rightarrow> nat \<Rightarrow> real \<times> real \<Rightarrow> real \<times> real" where
  "month_step c monthly_investment_rate y st =
     (let (oop, tp) = st;
          oop1 = (if y < loan_repayment_years c then oop + m_repayment c else oop);
          (oop2, tp2) = (if y < contribution_years c
                         then (oop1 + monthly_contribution c, tp + monthly_contribution c)
                         else (oop1, tp));
          tp3 = compound_growth tp2 monthly_investment_rate 1
      in (oop2, tp3))"

text \<open>The month loop, run for \<open>k\<close> iterations (the source runs it for 12).\<close>

fun run_months :: "cycle \<Rightarrow> real \<Rightarrow> nat \<Rightarrow> nat \<Rightarrow> real \<times> real \<Rightarrow> real \<times> real" where
  "run_months c r y 0 st = st"
| "run_months c r y (Suc k) st = run_months c r y k (month_step c r y st)"

text \<open>
  The body of \<^verbatim>\<open>for year_index in range(cycle_length_years)\<close>: the twelve months, then
  the bookkeeping of the year and the three appends:
  \<^verbatim>\<open>total_external_investment += out_of_pocket_year
  portfolio_after = total_portfolio
  roi_year = (portfolio_after - portfolio_before) - out_of_pocket_year
  net_gains_end_of_year = total_portfolio - total_external_investment\<close>
  In the program \<open>roi_year\<close> and \<open>net_gains_end_of_year\<close> are float expressions, each
  rounded on its own; here they are exact, so an identity between them is one of exact
  arithmetic and holds of the program's values up to rounding.
\<close>

definition year_step :: "cycle \<Rightarrow> real \<Rightarrow> nat \<Rightarrow> sim_state \<Rightarrow> sim_state" where
  "year_step c monthly_investment_rate y s =
     (let pf_before = total_portfolio s;
          (oop, tp) = run_months c monthly_investment_rate y 12 (0, pf_before);
          tei = total_external_investment s + oop;
          pf_after = tp;
          roi = (pf_after - pf_before) - oop;
          net = tp - tei;
          age = current_age s + 1;
          ages' = ages s @ [age]
      in \<lparr> total_portfolio = tp,
           total_external_investment = tei,
           current_age = age,
           ages = ages',
           net_gains_annual = net_gains_annual s @ [net],
           annual_details = annual_details s @
             [\<lparr> year_index = length ages',
                age_end = age,
                portfolio_before = pf_before,
                out_of_pocket_year = oop,
                portfolio_after = pf_after,
                roi_year = roi,
                delta_year = roi - oop,
                net_gains_end_of_year = net \<rparr>] \<rparr>)"

definition cycle_length_years :: "cycle \<Rightarrow> nat" where
  "cycle_length_years c = max (loan_repayment_years c) (contribution_years c)"

text \<open>\<^verbatim>\<open>total_portfolio += loan_amount\<close>, the first statement of the cycle loop.\<close>

definition invest_loan :: "cycle \<Rightarrow> sim_state \<Rightarrow> sim_state" where
  "invest_loan c s = s\<lparr> total_portfolio := total_portfolio s + loan_amount c \<rparr>"

text \<open>The year loop of a cycle, stopped after \<open>n\<close> years.\<close>

definition run_years :: "cycle \<Rightarrow> real \<Rightarrow> nat \<Rightarrow> sim_state \<Rightarrow> sim_state" where
  "run_years c r n s = fold (year_step c r) [0..<n] s"

text \<open>The body of \<^verbatim>\<open>for cycle in strategy_cycles\<close>.\<close>

definition cycle_step :: "real \<Rightarrow> cycle \<Rightarrow> sim_state \<Rightarrow> sim_state" where
  "cycle_step r c s = run_years c r (cycle_length_years c) (invest_loan c s)"

definition init_state :: "int \<Rightarrow> sim_state" where
  "init_state start_age =
     \<lparr> total_portfolio = 0, total_external_investment = 0, current_age = start_age,
       ages = [], net_gains_annual = [], annual_details = [] \<rparr>"

text \<open>The cycle loop at a given monthly rate.\<close>

definition run_cycles :: "real \<Rightarrow> cycle list \<Rightarrow> sim_state \<Rightarrow> sim_state" where
  "run_cycles r strategy_cycles s = fold (cycle_step r) strategy_cycles s"

definition simulate_multi_cycle_strategy_detailed ::
    "cycle list \<Rightarrow> real \<Rightarrow> int \<Rightarrow> sim_result" where
  "simulate_multi_cycle_strategy_detailed strategy_cycles annual_investment_rate start_age =
     (let monthly_investment_rate = annual_rate2mensual_rate annual_investment_rate;
          s = run_cycles monthly_investment_rate strategy_cycles (init_state start_age)
      in \<lparr> ages_out = ages s,
           net_gains_out = net_gains_annual s,
           final_portfolio = total_portfolio s,
           final_net_gains = total_portfolio s - total_external_investment s,
           details_out = annual_details s \<rparr>)"

subsection \<open>Building cycles\<close>

text \<open>
  \<^verbatim>\<open>def add_cycle(scenario_cycles, loan_amount, loan_interest_rate, loan_repayment_years,
                monthly_contribution, contribution_years):
      m_repay = monthly_repayment(loan_amount, loan_interest_rate, loan_repayment_years)
      cycle_dict = {..., "m_repayment": m_repay}
      scenario_cycles.append(cycle_dict)\<close>
  The repayment is computed once and stored. The year count is the integer of the form;
  \<^verbatim>\<open>monthly_repayment\<close> receives it as a number. The parameters are abbreviated
  (\<open>la\<close>, \<open>lir\<close>, \<open>lry\<close>, \<open>mc\<close>, \<open>cy\<close>), their full names being the fields of the record.
\<close>

definition add_cycle ::
    "cycle list \<Rightarrow> real \<Rightarrow> real \<Rightarrow> nat \<Rightarrow> real \<Rightarrow> nat \<Rightarrow> py_error + cycle list" where
  "add_cycle scenario_cycles la lir lry mc cy =
     (case monthly_repayment la lir (real lry) of
        Inl e \<Rightarrow> Inl e
      | Inr m_repay \<Rightarrow>
          Inr (scenario_cycles @
            [\<lparr> loan_amount = la, loan_interest_rate = lir, loan_repayment_years = lry,
               monthly_contribution = mc, contribution_years = cy,
               m_repayment = m_repay \<rparr>]))"

text \<open>
  The session state holds the two scenario lists. \<^verbatim>\<open>build_dca_cycles_from_lumpsum\<close>
  resets the second list and appends one mirror dict per cycle of the first:
  \<^verbatim>\<open>st.session_state.scenario2_cycles = []
  for c in st.session_state.scenario1_cycles:
      cycle_length_years = max(c["loan_repayment_years"], c["contribution_years"])
      dca_cycle = {"loan_amount": 0, "loan_interest_rate": 0, "loan_repayment_years": 0,
                   "monthly_contribution": c["m_repayment"],
                   "contribution_years": cycle_length_years, "m_repayment": 0}
      st.session_state.scenario2_cycles.append(dca_cycle)\<close>
\<close>

record session_state =
  scenario1_cycles :: "cycle list"
  scenario2_cycles :: "cycle list"

definition dca_cycle :: "cycle \<Rightarrow> cycle" where
  "dca_cycle c =
     (let cycle_len = max (loan_repayment_years c) (contribution_years c)
      in \<lparr> loan_amount = 0, loan_interest_rate = 0, loan_repayment_years = 0,
           monthly_contribution = m_repayment c,
           contribution_years = cycle_len,
           m_repayment = 0 \<rparr>)"

definition build_dca_cycles_from_lumpsum :: "session_state \<Rightarrow> session_state" where
  "build_dca_cycles_from_lumpsum st =
     fold (\<lambda>c st'. st'\<lparr> scenario2_cycles := scenario2_cycles st' @ [dca_cycle c] \<rparr>)
          (scenario1_cycles st) (st\<lparr> scenario2_cycles := [] \<rparr>)"

subsection \<open>Notions used in the statements\<close>

text \<open>
  What one month of year \<open>y\<close> of a cycle pays as repayment and as contribution (the two
  guarded additions of the month loop), and the year's totals they add up to.
\<close>

definition repay_of :: "cycle \<Rightarrow> nat \<Rightarrow> real" where
  "repay_of c y = (if y < loan_repayment_years c then m_repayment c else 0)"

definition contrib_of :: "cycle \<Rightarrow> nat \<Rightarrow> real" where
  "contrib_of c y = (if y < contribution_years c then monthly_contribution c else 0)"

definition year_oop :: "cycle \<Rightarrow> nat \<Rightarrow> real" where
  "year_oop c y = 12 * (repay_of c y + contrib_of c y)"

definition year_pf :: "cycle \<Rightarrow> real \<Rightarrow> nat \<Rightarrow> real \<Rightarrow> real" where
  "year_pf c r y p = p * (1 + r) ^ 12 + contrib_of c y * (\<Sum>i = 1..12. (1 + r) ^ i)"

text \<open>
  The bookkeeping of a list of year records, read from the left with the amount injected
  before the first record: each record's return and net gains are as the year body
  computes them.
\<close>

fun ledger_ok :: "real \<Rightarrow> year_record list \<Rightarrow> bool" where
  "ledger_ok paid [] = True"
| "ledger_ok paid (x # xs) =
     (roi_year x = (portfolio_after x - portfolio_before x) - out_of_pocket_year x
      \<and> net_gains_end_of_year x = portfolio_after x - (paid + out_of_pocket_year x)
      \<and> ledger_ok (paid + out_of_pocket_year x) xs)"

text \<open>
  A block of records of consecutive years: each starts with the portfolio the previous
  one ended with, the first with \<open>p\<close>.
\<close>

fun chained :: "real \<Rightarrow> year_record list \<Rightarrow> bool" where
  "chained p [] = True"
| "chained p (x # xs) = (portfolio_before x = p \<and> chained (portfolio_after x) xs)"

definition end_pf :: "real \<Rightarrow> year_record list \<Rightarrow> real" where
  "end_pf p xs = (if xs = [] then p else portfolio_after (last xs))"

text \<open>
  The cycle each record belongs to: cycle \<open>k\<close> of the strategy owns
  \<open>cycle_length_years\<close> consecutive records. \<open>loans cs a b\<close> is the total loan amount of
  the cycles \<open>a, \<dots>, b - 1\<close>.
\<close>

definition owners :: "cycle list \<Rightarrow> nat list" where
  "owners cs = concat (map (\<lambda>k. replicate (cycle_length_years (cs ! k)) k) [0..<length cs])"

definition loans :: "cycle list \<Rightarrow> nat \<Rightarrow> nat \<Rightarrow> real" where
  "loans cs a b = sum_list (map (\<lambda>k. loan_amount (cs ! k)) [a..<b])"

definition prev_after :: "year_record list \<Rightarrow> nat \<Rightarrow> real" where
  "prev_after D i = (if i = 0 then 0 else portfolio_after (D ! (i - 1)))"

definition first_cycle :: "nat list \<Rightarrow> nat \<Rightarrow> nat" where
  "first_cycle ow i = (if i = 0 then 0 else Suc (ow ! (i - 1)))"

text \<open>
  The cash a cycle injects: the sum of \<open>out_of_pocket_year\<close> over the records the cycle
  appends when it runs from state \<open>s\<close>.
\<close>

definition cycle_injected :: "real \<Rightarrow> cycle \<Rightarrow> sim_state \<Rightarrow> real" where
  "cycle_injected r c s =
     sum_list (map out_of_pocket_year
       (drop (length (annual_details s)) (annual_details (cycle_step r c s))))"

text \<open>
  A state with nothing negative: the portfolio, the cumulative injected total, and the
  three amounts of every record so far.
\<close>

definition nonneg_state :: "sim_state \<Rightarrow> bool" where
  "nonneg_state s =
     (0 \<le> total_portfolio s \<and> 0 \<le> total_external_investment s
      \<and> list_all (\<lambda>x. 0 \<le> out_of_pocket_year x \<and> 0 \<le> portfolio_before x
                         \<and> 0 \<le> portfolio_after x) (annual_details s))"

section \<open>Basic facts\<close>

lemma rate_zero: "annual_rate2mensual_rate 0 = 0"
  by (simp add: annual_rate2mensual_rate_def)

lemma rate_nonneg: "0 \<le> a \<Longrightarrow> 0 \<le> annual_rate2mensual_rate a"
  using ge_one_powr_ge_zero [of "1 + a" "1 / 12"]
  by (simp add: annual_rate2mensual_rate_def)

lemma twelfth_root_power: "0 < x \<Longrightarrow> ((x::real) powr (1 / 12)) ^ 12 = x"
proof -
  assume pos: "0 < x"
  then have "(x powr (1 / 12)) ^ 12 = x powr (of_nat 12 * (1 / 12))"
    by (intro powr_power) simp
  also have "\<dots> = x" using pos by simp
  finally show ?thesis .
qed

subsection \<open>The loops, unfolded\<close>

lemma month_step_eq:
  "month_step c r y (oop, tp) =
     (oop + repay_of c y + contrib_of c y, (tp + contrib_of c y) * (1 + r))"
  by (simp add: month_step_def repay_of_def contrib_of_def compound_growth_def)

lemma run_months_eq:
  "run_months c r y k (oop, tp) =
     (oop + real k * (repay_of c y + contrib_of c y),
      tp * (1 + r) ^ k + contrib_of c y * (\<Sum>i = 1..k. (1 + r) ^ i))"
proof (induction k arbitrary: oop tp)
  case 0
  show ?case by simp
next
  case (Suc k)
  have shift: "(\<Sum>i = 1..Suc k. (1 + r) ^ i) = (1 + r) ^ Suc k + (\<Sum>i = 1..k. (1 + r) ^ i)"
    by simp
  show ?case
    apply (simp only: run_months.simps month_step_eq Suc.IH shift)
    apply (simp add: algebra_simps)
    done
qed

lemma run_months_12: "run_months c r y 12 (0, p) = (year_oop c y, year_pf c r y p)"
  using run_months_eq [of c r y 12 0 p] by (simp add: year_oop_def year_pf_def)

lemma year_step_eq:
  "year_step c r y s =
     \<lparr> total_portfolio = year_pf c r y (total_portfolio s),
       total_external_investment = total_external_investment s + year_oop c y,
       current_age = current_age s + 1,
       ages = ages s @ [current_age s + 1],
       net_gains_annual = net_gains_annual s @
         [year_pf c r y (total_portfolio s) - (total_external_investment s + year_oop c y)],
       annual_details = annual_details s @
         [\<lparr> year_index = Suc (length (ages s)),
            age_end = current_age s + 1,
            portfolio_before = total_portfolio s,
            out_of_pocket_year = year_oop c y,
            portfolio_after = year_pf c r y (total_portfolio s),
            roi_year = (year_pf c r y (total_portfolio s) - total_portfolio s) - year_oop c y,
            delta_year = ((year_pf c r y (total_portfolio s) - total_portfolio s) - year_oop c y)
                           - year_oop c y,
            net_gains_end_of_year =
              year_pf c r y (total_portfolio s) - (total_external_investment s + year_oop c y) \<rparr>] \<rparr>"
  by (simp add: year_step_def run_months_12 Let_def)

lemma run_years_0: "run_years c r 0 s = s"
  by (simp add: run_years_def)

lemma run_years_Suc: "run_years c r (Suc n) s = year_step c r n (run_years c r n s)"
  by (simp add: run_years_def)

lemma run_cycles_Nil: "run_cycles r [] s = s"
  by (simp add: run_cycles_def)

lemma run_cycles_snoc: "run_cycles r (cs @ [c]) s = cycle_step r c (run_cycles r cs s)"
  by (simp add: run_cycles_def)

lemma run_cycles_Cons: "run_cycles r (c # cs) s = run_cycles r cs (cycle_step r c s)"
  by (simp add: run_cycles_def)

lemma run_cycles_append: "run_cycles r (cs @ ds) s = run_cycles r ds (run_cycles r cs s)"
  by (simp add: run_cycles_def)

lemma run_months_funpow: "run_months c r y k st = (month_step c r y ^^ k) st"
  by (induction k arbitrary: st) (simp_all add: funpow_swap1)

lemma zero_duration_cycle_step:
  "cycle_length_years c = 0 \<Longrightarrow> cycle_step r c s = invest_loan c s"
  by (simp add: cycle_step_def run_years_0)


lemma py_int_nonneg: "0 \<le> x \<Longrightarrow> py_int x = \<lfloor>x\<rfloor>"
  by (simp add: py_int_def)
lemma monthly_base_nonneg: "0 \<le> 1 + annual_rate2mensual_rate r"
  by (simp add: annual_rate2mensual_rate_def)
lemma power_ne_one:
  fixes x :: real
  assumes "0 \<le> x" "x \<noteq> 1" "0 < n"
  shows "x ^ n \<noteq> 1"
proof
  assume "x ^ n = 1"
  then have "x ^ n = 1 ^ n" by simp
  then have "x = 1" using assms by (intro power_eq_imp_eq_base [of x n 1]) simp_all
  with assms show False by simp
qed

lemma float_max_lower: "2 ^ 1023 \<le> float_max"
proof -
  have "(1::real) \<le> 2 - 1 / 2 ^ 52" by simp
  then have "1 * (2::real) ^ 1023 \<le> (2 - 1 / 2 ^ 52) * 2 ^ 1023"
    by (intro mult_right_mono) simp_all
  then show ?thesis by (simp only: float_max_def mult_1)
qed


lemma whole_years_power:
  assumes "- 1 \<le> r"
  shows "(1 + annual_rate2mensual_rate r) ^ (12 * k) = (1 + r) ^ k"
proof (cases "1 + r = 0")
  case True
  then show ?thesis by (cases k) (simp_all add: annual_rate2mensual_rate_def)
next
  case False
  with assms have "0 < 1 + r" by simp
  then have "((1 + r) powr (1 / 12)) ^ 12 = 1 + r" by (rule twelfth_root_power)
  then show ?thesis by (simp add: annual_rate2mensual_rate_def power_mult)
qed

lemma monthly_repayment_months:
  assumes "py_int (Y * 12) = int n" and "- 1 \<le> r"
  shows "monthly_repayment P r Y =
      (let m = annual_rate2mensual_rate r
       in if n = 0 then Inr 0
          else if m = 0 then Inr (P / real n)
          else if (1 + m) ^ n \<le> float_max
               then Inr (P * (m * (1 + m) ^ n) / ((1 + m) ^ n - 1))
               else Inl OverflowError)"
proof (cases "n = 0")
  case True
  then show ?thesis using assms by (simp add: monthly_repayment_def)
next
  case nz: False
  define m where "m = annual_rate2mensual_rate r"
  have real: "\<not> 1 + r < 0" using assms(2) by simp
  show ?thesis
  proof (cases "m = 0")
    case True
    then show ?thesis using nz assms(1) real
      by (simp add: monthly_repayment_def m_def [symmetric])
  next
    case mz: False
    have base: "0 \<le> 1 + m" unfolding m_def by (rule monthly_base_nonneg)
    then have abs: "\<bar>(1 + m) ^ n\<bar> = (1 + m) ^ n" by simp
    have "1 + m \<noteq> 1" using mz by simp
    then have ne: "(1 + m) ^ n \<noteq> 1" using base nz by (intro power_ne_one) simp_all
    show ?thesis
    proof (cases "(1 + m) ^ n \<le> float_max")
      case True
      then have pw: "float_pow (1 + m) (int n) = Inr ((1 + m) ^ n)"
        by (simp add: float_pow_def abs)
      show ?thesis using nz mz ne True real
        by (simp add: monthly_repayment_def assms(1) m_def [symmetric] pw float_div_def Let_def)
    next
      case False
      then have pw: "float_pow (1 + m) (int n) = Inl OverflowError"
        by (simp add: float_pow_def abs)
      show ?thesis using nz mz False real
        by (simp add: monthly_repayment_def assms(1) m_def [symmetric] pw Let_def)
    qed
  qed
qed


lemma py_int_whole_years: "py_int (real Y * 12) = int (12 * Y)"
proof -
  have "real Y * 12 = real_of_int (int (12 * Y))" by simp
  then have "\<lfloor>real Y * 12\<rfloor> = int (12 * Y)" by (simp only: floor_of_int)
  then show ?thesis by (simp add: py_int_def)
qed

lemma monthly_repayment_whole_years:
  assumes "- 1 \<le> r"
  shows "monthly_repayment P r (real Y) =
      (let m = annual_rate2mensual_rate r
       in if 12 * Y = 0 then Inr 0
          else if m = 0 then Inr (P / real (12 * Y))
          else if (1 + m) ^ (12 * Y) \<le> float_max
               then Inr (P * (m * (1 + m) ^ (12 * Y)) / ((1 + m) ^ (12 * Y) - 1))
               else Inl OverflowError)"
  using py_int_whole_years assms by (rule monthly_repayment_months)

lemma form_inputs_no_overflow:
  assumes "- 1 \<le> r" "r \<le> 1" "Y \<le> 1023"
  shows "(1 + annual_rate2mensual_rate r) ^ (12 * Y) \<le> float_max"
proof -
  have "(1 + r) ^ Y \<le> 2 ^ Y" using assms(1,2) by (intro power_mono) simp_all
  also have "(2::real) ^ Y \<le> 2 ^ 1023" using assms(3) by (intro power_increasing) simp_all
  also note float_max_lower
  finally show ?thesis by (simp only: whole_years_power [OF assms(1)])
qed

lemma monthly_repayment_form_inputs:
  assumes "- 1 \<le> r" "r \<le> 1" "Y \<le> 1023"
  shows "\<exists>rp. monthly_repayment P r (real Y) = Inr rp"
  using form_inputs_no_overflow [OF assms]
  by (simp add: monthly_repayment_whole_years [OF assms(1)] Let_def)

lemma build_dca_fold:
  "fold (\<lambda>c st'. st'\<lparr> scenario2_cycles := scenario2_cycles st' @ [f c] \<rparr>) cs st =
     st\<lparr> scenario2_cycles := scenario2_cycles st @ map f cs \<rparr>"
  by (induction cs arbitrary: st) simp_all

lemma build_dca_eq:
  "build_dca_cycles_from_lumpsum st = st\<lparr> scenario2_cycles := map dca_cycle (scenario1_cycles st) \<rparr>"
  by (simp add: build_dca_cycles_from_lumpsum_def build_dca_fold)

subsection \<open>The ledger of the year records\<close>

lemma ledger_ok_snoc:
  "ledger_ok paid (xs @ [x]) =
     (ledger_ok paid xs
      \<and> roi_year x = (portfolio_after x - portfolio_before x) - out_of_pocket_year x
      \<and> net_gains_end_of_year x =
          portfolio_after x - (paid + sum_list (map out_of_pocket_year xs) + out_of_pocket_year x))"
  by (induction xs arbitrary: paid) (auto simp: algebra_simps)

lemma ledger_consecutive:
  "ledger_ok paid xs \<Longrightarrow> Suc i < length xs \<Longrightarrow>
     net_gains_end_of_year (xs ! Suc i) =
       net_gains_end_of_year (xs ! i) + roi_year (xs ! Suc i)
         + (portfolio_before (xs ! Suc i) - portfolio_after (xs ! i))"
proof (induction xs arbitrary: i paid)
  case Nil
  then show ?case by simp
next
  case (Cons x xs)
  show ?case
  proof (cases i)
    case 0
    with Cons.prems obtain y ys where xs: "xs = y # ys" by (cases xs) auto
    with Cons.prems 0 show ?thesis by simp
  next
    case (Suc j)
    with Cons.prems have "ledger_ok (paid + out_of_pocket_year x) xs" "Suc j < length xs"
      by simp_all
    from Cons.IH [OF this] Suc show ?thesis by simp
  qed
qed

lemma ledger_year_step:
  assumes "ledger_ok 0 (annual_details s)"
    and "total_external_investment s = sum_list (map out_of_pocket_year (annual_details s))"
  shows "ledger_ok 0 (annual_details (year_step c r y s))"
    and "total_external_investment (year_step c r y s) =
           sum_list (map out_of_pocket_year (annual_details (year_step c r y s)))"
  using assms by (simp_all add: year_step_eq ledger_ok_snoc)

lemma ledger_run_years:
  assumes "ledger_ok 0 (annual_details s)"
    and "total_external_investment s = sum_list (map out_of_pocket_year (annual_details s))"
  shows "ledger_ok 0 (annual_details (run_years c r n s))
     \<and> total_external_investment (run_years c r n s) =
           sum_list (map out_of_pocket_year (annual_details (run_years c r n s)))"
proof (induction n)
  case 0
  show ?case using assms by (simp add: run_years_0)
next
  case (Suc n)
  then show ?case using ledger_year_step [of "run_years c r n s" c r n]
    by (simp add: run_years_Suc)
qed

lemma ledger_cycle_step:
  assumes "ledger_ok 0 (annual_details s)"
    and "total_external_investment s = sum_list (map out_of_pocket_year (annual_details s))"
  shows "ledger_ok 0 (annual_details (cycle_step r c s))
     \<and> total_external_investment (cycle_step r c s) =
           sum_list (map out_of_pocket_year (annual_details (cycle_step r c s)))"
  unfolding cycle_step_def
  by (rule ledger_run_years) (simp_all add: invest_loan_def assms)

lemma ledger_run_cycles:
  "ledger_ok 0 (annual_details s) \<Longrightarrow>
   total_external_investment s = sum_list (map out_of_pocket_year (annual_details s)) \<Longrightarrow>
   ledger_ok 0 (annual_details (run_cycles r cs s))
     \<and> total_external_investment (run_cycles r cs s) =
           sum_list (map out_of_pocket_year (annual_details (run_cycles r cs s)))"
proof (induction cs arbitrary: s)
  case Nil
  then show ?case by (simp add: run_cycles_Nil)
next
  case (Cons c cs)
  from ledger_cycle_step [OF Cons.prems, of r c]
  show ?case unfolding run_cycles_Cons by (intro Cons.IH) simp_all
qed

lemma ledger_simulation:
  "ledger_ok 0 (annual_details (run_cycles r cs (init_state age)))
     \<and> total_external_investment (run_cycles r cs (init_state age)) =
         sum_list (map out_of_pocket_year (annual_details (run_cycles r cs (init_state age))))"
  by (rule ledger_run_cycles) (simp_all add: init_state_def)

subsection \<open>The records a cycle appends\<close>

lemma chained_snoc:
  "chained p (xs @ [x]) = (chained p xs \<and> portfolio_before x = end_pf p xs)"
  by (induction xs arbitrary: p) (auto simp: end_pf_def)

lemma chained_nth:
  "chained p xs \<Longrightarrow> j < length xs \<Longrightarrow>
     portfolio_before (xs ! j) = (if j = 0 then p else portfolio_after (xs ! (j - 1)))"
proof (induction xs arbitrary: p j)
  case Nil
  then show ?case by simp
next
  case (Cons x xs)
  show ?case
  proof (cases j)
    case 0
    with Cons.prems show ?thesis by simp
  next
    case (Suc k)
    with Cons.prems have "chained (portfolio_after x) xs" "k < length xs" by simp_all
    from Cons.IH [OF this] Suc show ?thesis by (cases k) simp_all
  qed
qed

lemma run_years_block:
  "\<exists>blk. annual_details (run_years c r n s) = annual_details s @ blk
      \<and> length blk = n
      \<and> chained (total_portfolio s) blk
      \<and> total_portfolio (run_years c r n s) = end_pf (total_portfolio s) blk
      \<and> map out_of_pocket_year blk = map (year_oop c) [0..<n]"
proof (induction n)
  case 0
  show ?case by (simp add: run_years_0 end_pf_def)
next
  case (Suc n)
  then obtain blk where blk: "annual_details (run_years c r n s) = annual_details s @ blk"
      "length blk = n" "chained (total_portfolio s) blk"
      "total_portfolio (run_years c r n s) = end_pf (total_portfolio s) blk"
      "map out_of_pocket_year blk = map (year_oop c) [0..<n]"
    by blast
  obtain x where x: "annual_details (run_years c r (Suc n) s) = annual_details s @ (blk @ [x])"
      "portfolio_before x = total_portfolio (run_years c r n s)"
      "portfolio_after x = total_portfolio (run_years c r (Suc n) s)"
      "out_of_pocket_year x = year_oop c n"
    by (simp add: run_years_Suc year_step_eq blk(1))
  show ?case
    apply (rule exI [of _ "blk @ [x]"])
    apply (simp add: x blk chained_snoc)
    apply (simp add: end_pf_def x)
    done
qed

lemma cycle_step_block:
  "\<exists>blk. annual_details (cycle_step r c s) = annual_details s @ blk
      \<and> length blk = cycle_length_years c
      \<and> chained (total_portfolio s + loan_amount c) blk
      \<and> total_portfolio (cycle_step r c s) = end_pf (total_portfolio s + loan_amount c) blk
      \<and> map out_of_pocket_year blk = map (year_oop c) [0..<cycle_length_years c]"
  using run_years_block [of c r "cycle_length_years c" "invest_loan c s"]
  by (simp add: cycle_step_def invest_loan_def)

subsection \<open>Owners and loan sums\<close>

lemma owners_Nil: "owners [] = []"
  by (simp add: owners_def)

lemma owners_snoc:
  "owners (cs @ [c]) = owners cs @ replicate (cycle_length_years c) (length cs)"
proof -
  have eq: "map (\<lambda>k. replicate (cycle_length_years ((cs @ [c]) ! k)) k) [0..<length cs] =
        map (\<lambda>k. replicate (cycle_length_years (cs ! k)) k) [0..<length cs]"
    by (rule map_cong) (simp_all add: nth_append)
  show ?thesis unfolding owners_def by (simp add: eq)
qed

lemma owners_bound: "x \<in> set (owners cs) \<Longrightarrow> x < length cs"
  by (auto simp: owners_def)

lemma owners_nth_bound: "i < length (owners cs) \<Longrightarrow> owners cs ! i < length cs"
  by (rule owners_bound) simp

lemma owners_absent:
  "k < length cs \<Longrightarrow> k \<notin> set (owners cs) \<Longrightarrow> cycle_length_years (cs ! k) = 0"
  by (auto simp: owners_def)

lemma owners_sorted: "sorted (owners cs)"
proof (induction cs rule: rev_induct)
  case Nil
  show ?case by (simp add: owners_Nil)
next
  case (snoc c cs)
  then show ?case
    by (auto simp: owners_snoc sorted_append dest: owners_bound less_imp_le)
qed

lemma loans_empty: "b \<le> a \<Longrightarrow> loans cs a b = 0"
  by (simp add: loans_def)

lemma loans_append_left: "b \<le> length cs \<Longrightarrow> loans (cs @ ds) a b = loans cs a b"
  unfolding loans_def
  by (rule arg_cong [where f = sum_list], rule map_cong) (simp_all add: nth_append)

lemma loans_snoc:
  "a \<le> length cs \<Longrightarrow> loans (cs @ [c]) a (Suc (length cs)) = loans cs a (length cs) + loan_amount c"
  using loans_append_left [of "length cs" cs "[c]" a]
  by (simp add: loans_def)

lemma prev_after_append: "i \<le> length D \<Longrightarrow> prev_after (D @ blk) i = prev_after D i"
  by (cases i) (simp_all add: prev_after_def nth_append)

lemma first_cycle_append: "i \<le> length ow \<Longrightarrow> first_cycle (ow @ xs) i = first_cycle ow i"
  by (cases i) (simp_all add: first_cycle_def nth_append)

lemma first_cycle_bound:
  "i \<le> length (owners cs) \<Longrightarrow> first_cycle (owners cs) i \<le> length cs"
  using owners_nth_bound [of "i - 1" cs] by (auto simp: first_cycle_def Suc_le_eq)

lemma first_cycle_last: "xs \<noteq> [] \<Longrightarrow> first_cycle xs (length xs) = Suc (last xs)"
  by (simp add: first_cycle_def last_conv_nth)

lemma prev_after_last:
  "prev_after D (length D) = (if D = [] then 0 else portfolio_after (last D))"
  by (simp add: prev_after_def last_conv_nth)

subsection \<open>Portfolio continuity across the whole strategy\<close>

lemma portfolio_invariant:
  fixes r :: real and age :: int
  defines "S \<equiv> \<lambda>cs. run_cycles r cs (init_state age)"
  shows "length (annual_details (S cs)) = length (owners cs)
     \<and> (\<forall>i < length (annual_details (S cs)).
          portfolio_before (annual_details (S cs) ! i) =
            prev_after (annual_details (S cs)) i
              + loans cs (first_cycle (owners cs) i) (Suc (owners cs ! i)))
     \<and> total_portfolio (S cs) =
          prev_after (annual_details (S cs)) (length (annual_details (S cs)))
            + loans cs (first_cycle (owners cs) (length (owners cs))) (length cs)"
proof (induction cs rule: rev_induct)
  case Nil
  show ?case
    by (simp add: S_def run_cycles_Nil init_state_def owners_Nil prev_after_def loans_def)
next
  case (snoc c cs)
  define D where "D = annual_details (S cs)"
  define ow where "ow = owners cs"
  define n where "n = cycle_length_years c"
  define p where "p = total_portfolio (S cs) + loan_amount c"
  have len: "length D = length ow"
    and idx: "\<And>i. i < length D \<Longrightarrow>
        portfolio_before (D ! i) = prev_after D i + loans cs (first_cycle ow i) (Suc (ow ! i))"
    and tot: "total_portfolio (S cs) =
        prev_after D (length D) + loans cs (first_cycle ow (length ow)) (length cs)"
    using snoc.IH by (simp_all add: D_def ow_def)
  have step: "S (cs @ [c]) = cycle_step r c (S cs)"
    by (simp add: S_def run_cycles_snoc)
  obtain blk where blk: "annual_details (S (cs @ [c])) = D @ blk" "length blk = n"
      "chained p blk" "total_portfolio (S (cs @ [c])) = end_pf p blk"
    using cycle_step_block [of r c "S cs"] unfolding step D_def n_def p_def by blast
  have ow': "owners (cs @ [c]) = ow @ replicate n (length cs)"
    by (simp add: owners_snoc ow_def n_def)
  have fc: "first_cycle ow (length ow) \<le> length cs"
    unfolding ow_def by (rule first_cycle_bound) simp
  have p_eq: "p = prev_after D (length D)
        + loans (cs @ [c]) (first_cycle ow (length ow)) (Suc (length cs))"
    using fc by (simp add: p_def tot loans_snoc)
  have A: "length (annual_details (S (cs @ [c]))) = length (owners (cs @ [c]))"
    by (simp add: blk ow' len)
  have B: "portfolio_before ((D @ blk) ! i) =
        prev_after (D @ blk) i
          + loans (cs @ [c]) (first_cycle (ow @ replicate n (length cs)) i)
              (Suc ((ow @ replicate n (length cs)) ! i))"
    if i: "i < length D + n" for i
  proof (cases "i < length D")
    case True
    then have "Suc (ow ! i) \<le> length cs"
      using owners_nth_bound [of i cs] by (simp add: ow_def len Suc_le_eq)
    then show ?thesis using True idx [OF True]
      by (simp add: nth_append len [symmetric] prev_after_append first_cycle_append
          loans_append_left)
  next
    case False
    define j where "j = i - length D"
    have i_eq: "i = length D + j" and j: "j < n" using False i by (simp_all add: j_def)
    have pb: "portfolio_before (blk ! j) = (if j = 0 then p else portfolio_after (blk ! (j - 1)))"
      using chained_nth [OF blk(3), of j] j blk(2) by simp
    show ?thesis
    proof (cases j)
      case 0
      then have "i = length D" using i_eq by simp
      then show ?thesis using pb 0 j
        by (simp add: nth_append len prev_after_append first_cycle_append p_eq)
    next
      case (Suc k)
      then have "i - 1 = length D + k" using i_eq by simp
      then show ?thesis using pb Suc j i_eq
        by (simp add: nth_append len prev_after_def first_cycle_def loans_empty)
    qed
  qed
  have C: "end_pf p blk =
        prev_after (D @ blk) (length (D @ blk))
          + loans (cs @ [c]) (first_cycle (ow @ replicate n (length cs))
              (length (ow @ replicate n (length cs)))) (length (cs @ [c]))"
  proof (cases "n = 0")
    case True
    then have "blk = []" using blk(2) by simp
    then show ?thesis using True
      by (simp add: end_pf_def p_eq len)
  next
    case False
    then have ne: "blk \<noteq> []" using blk(2) by auto
    have pl: "prev_after (D @ blk) (length (D @ blk)) = portfolio_after (last blk)"
      using ne by (simp add: prev_after_last del: length_append)
    have "ow @ replicate n (length cs) \<noteq> []" using False by simp
    from first_cycle_last [OF this]
    have fcl: "first_cycle (ow @ replicate n (length cs))
        (length (ow @ replicate n (length cs))) = Suc (length cs)"
      using False by simp
    show ?thesis unfolding pl fcl using ne by (simp add: end_pf_def loans_empty)
  qed
  show ?case
    unfolding blk(1) blk(4) ow'
    apply (intro conjI allI impI)
      apply (simp add: len blk(2))
     apply (rule B)
     apply (simp add: blk(2))
    apply (rule C)
    done
qed

lemma owners_step_le: "Suc i < length (owners cs) \<Longrightarrow> owners cs ! i \<le> owners cs ! Suc i"
  using owners_sorted [of cs] by (simp add: sorted_iff_nth_mono)

lemma owners_between_zero:
  assumes "Suc i < length (owners cs)" "owners cs ! i < k" "k < owners cs ! Suc i"
  shows "cycle_length_years (cs ! k) = 0"
proof -
  have klen: "k < length cs"
    using assms(3) owners_nth_bound [OF assms(1)] by simp
  have "k \<notin> set (owners cs)"
  proof
    assume "k \<in> set (owners cs)"
    then obtain j where j: "j < length (owners cs)" "owners cs ! j = k"
      by (auto simp: in_set_conv_nth)
    show False
    proof (cases "j \<le> i")
      case True
      then have "owners cs ! j \<le> owners cs ! i"
        using owners_sorted [of cs] assms(1) by (simp add: sorted_iff_nth_mono)
      with j assms(2) show False by simp
    next
      case False
      then have "owners cs ! Suc i \<le> owners cs ! j"
        using owners_sorted [of cs] j(1) by (simp add: sorted_iff_nth_mono)
      with j assms(3) show False by simp
    qed
  qed
  with klen show ?thesis by (rule owners_absent)
qed

lemma owners_before_first_zero:
  assumes "owners cs \<noteq> []" "k < owners cs ! 0"
  shows "cycle_length_years (cs ! k) = 0"
proof -
  have pos: "0 < length (owners cs)" using assms(1) by simp
  have klen: "k < length cs"
    using assms(2) owners_nth_bound [OF pos] by simp
  have "k \<notin> set (owners cs)"
  proof
    assume "k \<in> set (owners cs)"
    then obtain j where j: "j < length (owners cs)" "owners cs ! j = k"
      by (auto simp: in_set_conv_nth)
    then have "owners cs ! 0 \<le> owners cs ! j"
      using sorted_nth_mono [OF owners_sorted, of 0 j cs] by simp
    with j assms(2) show False by simp
  qed
  with klen show ?thesis by (rule owners_absent)
qed

subsection \<open>Cash injected by a cycle\<close>

lemma sum_guarded:
  "sum_list (map (\<lambda>y. if y < L then x else 0) [0..<n]) = real (min L n) * (x::real)"
proof (induction n)
  case 0
  show ?case by simp
next
  case (Suc n)
  show ?case
  proof (cases "n < L")
    case True
    then have "min L (Suc n) = Suc n" "min L n = n" by simp_all
    with Suc True show ?thesis by (simp add: algebra_simps)
  next
    case False
    then have "min L (Suc n) = L" "min L n = L" by simp_all
    with Suc False show ?thesis by simp
  qed
qed

lemma sum_year_oop:
  "sum_list (map (year_oop c) [0..<cycle_length_years c]) =
     12 * (real (loan_repayment_years c) * m_repayment c
           + real (contribution_years c) * monthly_contribution c)"
proof -
  let ?n = "cycle_length_years c"
  have split: "sum_list (map (year_oop c) ys) =
      12 * (sum_list (map (repay_of c) ys) + sum_list (map (contrib_of c) ys))" for ys
    by (induction ys) (simp_all add: year_oop_def algebra_simps)
  have "sum_list (map (year_oop c) [0..<?n]) =
      12 * (sum_list (map (repay_of c) [0..<?n]) + sum_list (map (contrib_of c) [0..<?n]))"
    by (rule split)
  also have "sum_list (map (repay_of c) [0..<?n]) =
      real (min (loan_repayment_years c) ?n) * m_repayment c"
    unfolding repay_of_def by (rule sum_guarded)
  also have "sum_list (map (contrib_of c) [0..<?n]) =
      real (min (contribution_years c) ?n) * monthly_contribution c"
    unfolding contrib_of_def by (rule sum_guarded)
  finally show ?thesis by (simp add: cycle_length_years_def)
qed

lemma cycle_injected_eq:
  "cycle_injected r c s =
     12 * (real (loan_repayment_years c) * m_repayment c
           + real (contribution_years c) * monthly_contribution c)"
proof -
  obtain blk where "annual_details (cycle_step r c s) = annual_details s @ blk"
      "map out_of_pocket_year blk = map (year_oop c) [0..<cycle_length_years c]"
    using cycle_step_block [of r c s] by blast
  then show ?thesis by (simp add: cycle_injected_def sum_year_oop)
qed

lemma cycle_step_injected:
  "total_external_investment (cycle_step r c s) =
     total_external_investment s + cycle_injected r c s"
proof -
  have *: "total_external_investment (run_years c r n s') =
      total_external_investment s' + sum_list (map (year_oop c) [0..<n])" for n s'
    by (induction n) (simp_all add: run_years_0 run_years_Suc year_step_eq)
  show ?thesis
    by (simp add: cycle_step_def * invest_loan_def cycle_injected_eq sum_year_oop)
qed

lemma run_cycles_injected:
  "total_external_investment (run_cycles r cs s) =
     total_external_investment s
       + (\<Sum>c\<leftarrow>cs. 12 * (real (loan_repayment_years c) * m_repayment c
                        + real (contribution_years c) * monthly_contribution c))"
  by (induction cs arbitrary: s)
     (simp_all add: run_cycles_Nil run_cycles_Cons cycle_step_injected cycle_injected_eq)

subsection \<open>Evaluating a year at rate 0\<close>

lemma year_pf_rate_zero: "year_pf c 0 y p = p + 12 * contrib_of c y"
  by (simp add: year_pf_def)

lemmas sim_eval =
  simulate_multi_cycle_strategy_detailed_def rate_zero run_cycles_Cons run_cycles_Nil
  cycle_step_def cycle_length_years_def run_years_Suc run_years_0 year_step_eq init_state_def
  invest_loan_def year_pf_rate_zero year_oop_def contrib_of_def repay_of_def

subsection \<open>The records of a simulation\<close>

lemma details_simulation:
  "details_out (simulate_multi_cycle_strategy_detailed cs a age) =
     annual_details (run_cycles (annual_rate2mensual_rate a) cs (init_state age))"
  by (simp add: simulate_multi_cycle_strategy_detailed_def Let_def)

lemma details_length:
  "length (annual_details (run_cycles r cs (init_state age))) = length (owners cs)"
  using portfolio_invariant [of r cs age] by simp

lemma before_successor:
  assumes "Suc i < length (annual_details (run_cycles r cs (init_state age)))"
  shows "portfolio_before (annual_details (run_cycles r cs (init_state age)) ! Suc i) =
     portfolio_after (annual_details (run_cycles r cs (init_state age)) ! i)
       + loans cs (Suc (owners cs ! i)) (Suc (owners cs ! Suc i))"
  using portfolio_invariant [of r cs age] assms
  by (simp add: prev_after_def first_cycle_def)

lemma before_first:
  assumes "annual_details (run_cycles r cs (init_state age)) \<noteq> []"
  shows "portfolio_before (annual_details (run_cycles r cs (init_state age)) ! 0) =
     loans cs 0 (Suc (owners cs ! 0))"
proof -
  have "0 < length (annual_details (run_cycles r cs (init_state age)))"
    using assms by simp
  then show ?thesis
    using portfolio_invariant [of r cs age] by (simp add: prev_after_def first_cycle_def)
qed

subsection \<open>Intermediate states of a run\<close>

lemma run_cycles_at:
  "j < length cs \<Longrightarrow>
     run_cycles r cs s =
       run_cycles r (drop (Suc j) cs) (cycle_step r (cs ! j) (run_cycles r (take j cs) s))"
proof -
  assume "j < length cs"
  then have "cs = take j cs @ cs ! j # drop (Suc j) cs" by (rule id_take_nth_drop)
  then have "run_cycles r cs s = run_cycles r (take j cs @ cs ! j # drop (Suc j) cs) s"
    by simp
  then show ?thesis by (simp only: run_cycles_append run_cycles_Cons)
qed

lemma run_years_at:
  "y \<le> n \<Longrightarrow> run_years c r n s = fold (year_step c r) [y..<n] (run_years c r y s)"
proof -
  assume "y \<le> n"
  then have "[0..<n] = [0..<y] @ [y..<n]"
    using upt_add_eq_append [of 0 y "n - y"] by simp
  then show ?thesis by (simp add: run_years_def)
qed

lemma year_step_months:
  "total_portfolio (year_step c r y s) = snd (run_months c r y 12 (0, total_portfolio s))"
  "total_external_investment (year_step c r y s) =
     total_external_investment s + fst (run_months c r y 12 (0, total_portfolio s))"
  by (simp_all add: year_step_eq run_months_12)

lemma run_months_add:
  "run_months c r y (k + l) st = run_months c r y l (run_months c r y k st)"
  by (induction k arbitrary: st) simp_all

subsection \<open>Nothing becomes negative\<close>

lemma run_months_nonneg:
  assumes "0 \<le> m_repayment c" "0 \<le> monthly_contribution c" "0 \<le> r"
    and "0 \<le> oop" "0 \<le> tp"
  shows "0 \<le> fst (run_months c r y k (oop, tp)) \<and> 0 \<le> snd (run_months c r y k (oop, tp))"
proof -
  have rp: "0 \<le> repay_of c y" and cp: "0 \<le> contrib_of c y"
    using assms by (simp_all add: repay_of_def contrib_of_def)
  have "0 \<le> (\<Sum>i = 1..k. (1 + r) ^ i)"
    using assms(3) by (intro sum_nonneg) simp
  then show ?thesis using rp cp assms
    by (simp add: run_months_eq)
qed

lemma year_nonneg:
  assumes "0 \<le> m_repayment c" "0 \<le> monthly_contribution c" "0 \<le> r" "0 \<le> p"
  shows "0 \<le> year_oop c y" "0 \<le> year_pf c r y p"
  using run_months_nonneg [OF assms(1-3) order_refl assms(4), of y 12]
  by (simp_all add: run_months_12)

lemma year_step_nonneg:
  assumes "0 \<le> m_repayment c" "0 \<le> monthly_contribution c" "0 \<le> r" "nonneg_state s"
  shows "nonneg_state (year_step c r y s)"
proof -
  have p: "0 \<le> total_portfolio s" using assms(4) by (simp add: nonneg_state_def)
  from year_nonneg [OF assms(1-3) p, of y] assms(4)
  show ?thesis by (simp add: nonneg_state_def year_step_eq)
qed

lemma run_years_nonneg:
  assumes "0 \<le> m_repayment c" "0 \<le> monthly_contribution c" "0 \<le> r" "nonneg_state s"
  shows "nonneg_state (run_years c r n s)"
  by (induction n) (simp_all add: run_years_0 run_years_Suc assms year_step_nonneg)

lemma invest_loan_nonneg:
  "0 \<le> loan_amount c \<Longrightarrow> nonneg_state s \<Longrightarrow> nonneg_state (invest_loan c s)"
  by (simp add: nonneg_state_def invest_loan_def)

lemma cycle_step_nonneg:
  assumes "0 \<le> loan_amount c" "0 \<le> m_repayment c" "0 \<le> monthly_contribution c" "0 \<le> r"
    and "nonneg_state s"
  shows "nonneg_state (cycle_step r c s)"
  unfolding cycle_step_def
  by (intro run_years_nonneg invest_loan_nonneg assms)

lemma run_cycles_nonneg:
  assumes "\<forall>c \<in> set cs. 0 \<le> loan_amount c \<and> 0 \<le> monthly_contribution c \<and> 0 \<le> m_repayment c"
    and "0 \<le> r" "nonneg_state s"
  shows "nonneg_state (run_cycles r cs s)"
  using assms
proof (induction cs arbitrary: s)
  case Nil
  then show ?case by (simp add: run_cycles_Nil)
next
  case (Cons c cs)
  then have "nonneg_state (cycle_step r c s)"
    by (intro cycle_step_nonneg) simp_all
  with Cons show ?case by (simp add: run_cycles_Cons)
qed

lemma init_state_nonneg: "nonneg_state (init_state age)"
  by (simp add: nonneg_state_def init_state_def)

subsection \<open>The record of a given year of a given cycle\<close>

lemma month_step_stages:
  "month_step c r y =
     (\<lambda>(oop, tp). (oop, tp * (1 + r))) \<circ>
     (\<lambda>(oop, tp). if y < contribution_years c
                    then (oop + monthly_contribution c, tp + monthly_contribution c)
                    else (oop, tp)) \<circ>
     (\<lambda>(oop, tp). if y < loan_repayment_years c then (oop + m_repayment c, tp) else (oop, tp))"
  by (rule ext) (simp add: month_step_def compound_growth_def split: prod.splits)

lemma twelve_months:
  "(month_step c r y ^^ 12) (0, p) = (year_oop c y, year_pf c r y p)"
  by (simp only: run_months_funpow [symmetric] run_months_12)

lemma run_years_length:
  "length (annual_details (run_years c r n s)) = length (annual_details s) + n"
  by (induction n) (simp_all add: run_years_0 run_years_Suc year_step_eq)

lemma run_years_nth:
  "y < n \<Longrightarrow>
     portfolio_before (annual_details (run_years c r n s) ! (length (annual_details s) + y)) =
       total_portfolio (run_years c r y s)
     \<and> out_of_pocket_year (annual_details (run_years c r n s) ! (length (annual_details s) + y)) =
       year_oop c y
     \<and> portfolio_after (annual_details (run_years c r n s) ! (length (annual_details s) + y)) =
       year_pf c r y (total_portfolio (run_years c r y s))"
proof (induction n)
  case 0
  then show ?case by simp
next
  case (Suc n)
  have len: "length (annual_details (run_years c r n s)) = length (annual_details s) + n"
    by (rule run_years_length)
  show ?case
  proof (cases "y < n")
    case True
    then show ?thesis using Suc.IH
      by (simp add: run_years_Suc year_step_eq nth_append len)
  next
    case False
    with Suc.prems have "y = n" by simp
    then show ?thesis
      by (simp add: run_years_Suc year_step_eq nth_append len)
  qed
qed

lemma cycle_step_grows:
  "\<exists>X. annual_details (cycle_step r c s) = annual_details s @ X"
  using cycle_step_block [of r c s] by blast

lemma run_cycles_grows:
  "\<exists>X. annual_details (run_cycles r ds s) = annual_details s @ X"
proof (induction ds arbitrary: s)
  case Nil
  show ?case by (simp add: run_cycles_Nil)
next
  case (Cons d ds)
  obtain X where X: "annual_details (cycle_step r d s) = annual_details s @ X"
    using cycle_step_grows by blast
  obtain Z where "annual_details (run_cycles r ds (cycle_step r d s)) =
      annual_details (cycle_step r d s) @ Z"
    using Cons.IH by blast
  then show ?case by (simp add: run_cycles_Cons X)
qed

lemma run_cycles_length:
  "length (annual_details (run_cycles r cs s)) =
     length (annual_details s) + sum_list (map cycle_length_years cs)"
proof (induction cs arbitrary: s)
  case Nil
  show ?case by (simp add: run_cycles_Nil)
next
  case (Cons c cs)
  have "length (annual_details (cycle_step r c s)) =
      length (annual_details s) + cycle_length_years c"
    by (simp add: cycle_step_def run_years_length invest_loan_def)
  then show ?case by (simp add: run_cycles_Cons Cons.IH)
qed

lemma record_of_year:
  fixes r :: real and age :: int and cs :: "cycle list" and j y :: nat
  assumes j: "j < length cs" and y: "y < cycle_length_years (cs ! j)"
  defines "S \<equiv> run_cycles r (take j cs) (init_state age)"
  defines "i \<equiv> sum_list (map cycle_length_years (take j cs)) + y"
  defines "D \<equiv> annual_details (run_cycles r cs (init_state age))"
  shows "i < length D
     \<and> portfolio_before (D ! i) =
         total_portfolio (run_years (cs ! j) r y (invest_loan (cs ! j) S))
     \<and> out_of_pocket_year (D ! i) = year_oop (cs ! j) y
     \<and> portfolio_after (D ! i) = year_pf (cs ! j) r y (portfolio_before (D ! i))"
proof -
  define c where "c = cs ! j"
  define E where "E = annual_details (cycle_step r c S)"
  have lenS: "length (annual_details S) = sum_list (map cycle_length_years (take j cs))"
    unfolding S_def by (simp add: run_cycles_length init_state_def)
  have E_eq: "E = annual_details (run_years c r (cycle_length_years c) (invest_loan c S))"
    by (simp add: E_def cycle_step_def)
  have lenI: "length (annual_details (invest_loan c S)) = length (annual_details S)"
    by (simp add: invest_loan_def)
  have lenE: "length E = length (annual_details S) + cycle_length_years c"
    unfolding E_eq by (simp add: run_years_length lenI)
  have iE: "i < length E" using y by (simp add: lenE i_def lenS c_def)
  have idx: "i = length (annual_details (invest_loan c S)) + y"
    by (simp add: i_def lenI lenS)
  have rec: "portfolio_before (E ! i) = total_portfolio (run_years c r y (invest_loan c S))
     \<and> out_of_pocket_year (E ! i) = year_oop c y
     \<and> portfolio_after (E ! i) = year_pf c r y (total_portfolio (run_years c r y (invest_loan c S)))"
    unfolding E_eq idx
    by (rule run_years_nth) (use y in \<open>simp add: c_def\<close>)
  have split: "cs = take j cs @ c # drop (Suc j) cs"
    unfolding c_def using j by (rule id_take_nth_drop)
  have "run_cycles r cs (init_state age) =
      run_cycles r (drop (Suc j) cs) (cycle_step r c S)"
    unfolding S_def c_def using j by (rule run_cycles_at)
  then obtain X where X: "D = E @ X"
    unfolding D_def E_def using run_cycles_grows [of r "drop (Suc j) cs" "cycle_step r c S"]
    by auto
  have nth: "D ! i = E ! i" using iE by (simp add: X nth_append)
  have "i < length D" using iE by (simp add: X)
  then show ?thesis using rec by (simp add: nth c_def)
qed

section \<open>Claims\<close>

text \<open>
  C1. In every cycle of a strategy and every simulated year \<open>y\<close> (0-based) of that cycle,
  the simulator starts the year with out-of-pocket 0 and the running portfolio, and
  processes twelve months, each in this order: if \<open>y < loan_repayment_years\<close> the
  repayment is added to the year's out-of-pocket total only; then, if
  \<open>y < contribution_years\<close>, the contribution is added to the out-of-pocket total and to
  the portfolio; then the whole portfolio is multiplied by \<open>1 + monthly rate\<close>, so the
  month's own contribution earns that month's growth. The year's record, at the year's
  place in the sequence of records, holds the portfolio at the start and the two values
  after the twelfth month.
\<close>

theorem month_update_order:
  "\<forall>j y. j < length cs \<and> y < cycle_length_years (cs ! j) \<longrightarrow>
     (let c = cs ! j;
          m = annual_rate2mensual_rate a;
          D = details_out (simulate_multi_cycle_strategy_detailed cs a age);
          i = sum_list (map cycle_length_years (take j cs)) + y;
          entering = run_years c m y
                       (invest_loan c (run_cycles m (take j cs) (init_state age)));
          repay = (\<lambda>(oop, tp). if y < loan_repayment_years c
                                 then (oop + m_repayment c, tp) else (oop, tp));
          contribute = (\<lambda>(oop, tp). if y < contribution_years c
                                      then (oop + monthly_contribution c,
                                            tp + monthly_contribution c)
                                      else (oop, tp));
          grow = (\<lambda>(oop, tp). (oop, tp * (1 + m)))
      in length D = sum_list (map cycle_length_years cs)
         \<and> i < length D
         \<and> portfolio_before (D ! i) = total_portfolio entering
         \<and> (out_of_pocket_year (D ! i), portfolio_after (D ! i)) =
             ((grow \<circ> contribute \<circ> repay) ^^ 12) (0, portfolio_before (D ! i)))"
proof (intro allI impI)
  fix j y
  assume jy: "j < length cs \<and> y < cycle_length_years (cs ! j)"
  define m where "m = annual_rate2mensual_rate a"
  define D where "D = annual_details (run_cycles m cs (init_state age))"
  define i where "i = sum_list (map cycle_length_years (take j cs)) + y"
  have len: "length D = sum_list (map cycle_length_years cs)"
    by (simp add: D_def run_cycles_length init_state_def)
  have rec: "i < length D
     \<and> portfolio_before (D ! i) = total_portfolio (run_years (cs ! j) m y
           (invest_loan (cs ! j) (run_cycles m (take j cs) (init_state age))))
     \<and> out_of_pocket_year (D ! i) = year_oop (cs ! j) y
     \<and> portfolio_after (D ! i) = year_pf (cs ! j) m y (portfolio_before (D ! i))"
    unfolding D_def i_def using jy by (intro record_of_year) simp_all
  have tw: "(out_of_pocket_year (D ! i), portfolio_after (D ! i)) =
      (month_step (cs ! j) m y ^^ 12) (0, portfolio_before (D ! i))"
    using rec by (simp add: twelve_months)
  show "let c = cs ! j;
          m = annual_rate2mensual_rate a;
          D = details_out (simulate_multi_cycle_strategy_detailed cs a age);
          i = sum_list (map cycle_length_years (take j cs)) + y;
          entering = run_years c m y
                       (invest_loan c (run_cycles m (take j cs) (init_state age)));
          repay = (\<lambda>(oop, tp). if y < loan_repayment_years c
                                 then (oop + m_repayment c, tp) else (oop, tp));
          contribute = (\<lambda>(oop, tp). if y < contribution_years c
                                      then (oop + monthly_contribution c,
                                            tp + monthly_contribution c)
                                      else (oop, tp));
          grow = (\<lambda>(oop, tp). (oop, tp * (1 + m)))
      in length D = sum_list (map cycle_length_years cs)
         \<and> i < length D
         \<and> portfolio_before (D ! i) = total_portfolio entering
         \<and> (out_of_pocket_year (D ! i), portfolio_after (D ! i)) =
             ((grow \<circ> contribute \<circ> repay) ^^ 12) (0, portfolio_before (D ! i))"
    unfolding Let_def details_simulation m_def [symmetric] D_def [symmetric]
      i_def [symmetric] month_step_stages [symmetric]
    using len rec tw by simp
qed

theorem month_update_order_witness:
  "(let cs = [\<lparr> loan_amount = 0, loan_interest_rate = 0, loan_repayment_years = 1,
               monthly_contribution = 100, contribution_years = 2, m_repayment = 50 \<rparr>];
        D = details_out (simulate_multi_cycle_strategy_detailed cs 0 30)
    in (0::nat) < length cs \<and> 1 < cycle_length_years (cs ! 0)
       \<and> length D = 2
       \<and> portfolio_before (D ! 0) = 0
       \<and> out_of_pocket_year (D ! 0) = 1800 \<and> portfolio_after (D ! 0) = 1200
       \<and> portfolio_before (D ! 1) = 1200
       \<and> out_of_pocket_year (D ! 1) = 1200 \<and> portfolio_after (D ! 1) = 2400)"
  using month_update_order [of
      "[\<lparr> loan_amount = 0, loan_interest_rate = 0, loan_repayment_years = 1,
               monthly_contribution = 100, contribution_years = 2, m_repayment = 50 \<rparr>]" 0 30]
  by (simp add: sim_eval eval_nat_numeral Let_def)

text \<open>
  C2. For every strategy, annual investment rate and start age, and every index
  \<open>i \<ge> 1\<close> of the sequence of year records, in exact arithmetic: the net gains of record
  \<open>i\<close> are the net gains of record \<open>i - 1\<close> plus the return of record \<open>i\<close> plus the loan
  amounts added to the portfolio between the two records. Within one cycle nothing is
  added, and the net gains of record \<open>i\<close> are those of record \<open>i - 1\<close> plus the return of
  record \<open>i\<close>; at a cycle boundary the added amount is the loan of the new cycle and of the
  cycles without years before it. The program computes \<open>roi_year\<close> and
  \<open>net_gains_end_of_year\<close> as two separately rounded float expressions, so its values
  satisfy these equations up to rounding and not bit for bit; the loan term of the
  counterexample is no rounding effect, its values being small whole numbers.
\<close>

theorem net_gains_recurrence:
  "(let D = details_out (simulate_multi_cycle_strategy_detailed cs a age); ow = owners cs in
     length D = length ow
     \<and> (\<forall>i. Suc i < length D \<longrightarrow>
          net_gains_end_of_year (D ! Suc i) =
            net_gains_end_of_year (D ! i) + roi_year (D ! Suc i)
              + loans cs (Suc (ow ! i)) (Suc (ow ! Suc i)))
     \<and> (\<forall>i. Suc i < length D \<and> ow ! Suc i = ow ! i \<longrightarrow>
          net_gains_end_of_year (D ! Suc i) =
            net_gains_end_of_year (D ! i) + roi_year (D ! Suc i)))"
proof -
  define r where "r = annual_rate2mensual_rate a"
  define D where "D = annual_details (run_cycles r cs (init_state age))"
  have led: "ledger_ok 0 D"
    using ledger_simulation [of r cs age] by (simp add: D_def)
  have gen: "net_gains_end_of_year (D ! Suc i) =
            net_gains_end_of_year (D ! i) + roi_year (D ! Suc i)
              + loans cs (Suc (owners cs ! i)) (Suc (owners cs ! Suc i))"
    if "Suc i < length D" for i
    using ledger_consecutive [OF led that] before_successor [of i r cs age] that
    by (simp add: D_def)
  have same: "net_gains_end_of_year (D ! Suc i) =
            net_gains_end_of_year (D ! i) + roi_year (D ! Suc i)"
    if "Suc i < length D" "owners cs ! Suc i = owners cs ! i" for i
    using gen [OF that(1)] that(2) by (simp add: loans_empty)
  have len: "length D = length (owners cs)"
    unfolding D_def by (rule details_length)
  show ?thesis
    unfolding Let_def details_simulation r_def [symmetric] D_def [symmetric]
    using len gen same by blast
qed

theorem net_gains_recurrence_witness:
  "(let cs = [\<lparr> loan_amount = 1000, loan_interest_rate = 0, loan_repayment_years = 0,
               monthly_contribution = 100, contribution_years = 2, m_repayment = 0 \<rparr>];
        D = details_out (simulate_multi_cycle_strategy_detailed cs 0 30)
    in Suc 0 < length D \<and> owners cs ! Suc 0 = owners cs ! 0
       \<and> net_gains_end_of_year (D ! 0) = 1000 \<and> roi_year (D ! Suc 0) = 0
       \<and> net_gains_end_of_year (D ! Suc 0) = net_gains_end_of_year (D ! 0) + roi_year (D ! Suc 0))"
  using net_gains_recurrence [of
      "[\<lparr> loan_amount = 1000, loan_interest_rate = 0, loan_repayment_years = 0,
               monthly_contribution = 100, contribution_years = 2, m_repayment = 0 \<rparr>]" 0 30]
  by (simp add: sim_eval owners_def eval_nat_numeral Let_def)

theorem net_gains_recurrence_counterexample:
  "(let cs = [\<lparr> loan_amount = 1000, loan_interest_rate = 0, loan_repayment_years = 0,
               monthly_contribution = 0, contribution_years = 1, m_repayment = 0 \<rparr>,
             \<lparr> loan_amount = 1000, loan_interest_rate = 0, loan_repayment_years = 0,
               monthly_contribution = 0, contribution_years = 1, m_repayment = 0 \<rparr>];
        D = details_out (simulate_multi_cycle_strategy_detailed cs 0 30)
    in length D = 2
       \<and> net_gains_end_of_year (D ! 0) = 1000
       \<and> roi_year (D ! 1) = 0
       \<and> net_gains_end_of_year (D ! 1) = 2000
       \<and> net_gains_end_of_year (D ! 1) \<noteq> net_gains_end_of_year (D ! 0) + roi_year (D ! 1))"
  by (simp add: sim_eval Let_def)




text \<open>
  C4. For each cycle of scenario 1 the cash injected during the cycle, the sum of
  \<open>out_of_pocket_year\<close> over its years, is
  \<open>12 * loan_repayment_years * m_repayment + 12 * contribution_years * monthly_contribution\<close>;
  its mirror cycle in scenario 2 injects
  \<open>12 * max loan_repayment_years contribution_years * m_repayment\<close>. The two are equal
  exactly when
  \<open>loan_repayment_years * m_repayment + contribution_years * monthly_contribution =
   max loan_repayment_years contribution_years * m_repayment\<close>,
  in particular when the cycle has no contribution of its own
  (\<open>monthly_contribution = 0\<close>) and \<open>contribution_years \<le> loan_repayment_years\<close>.
\<close>

theorem mirror_injected_cash:
  "\<forall>k < length (scenario1_cycles st).
     (let A = scenario1_cycles st ! k;
          B = scenario2_cycles (build_dca_cycles_from_lumpsum st) ! k
      in cycle_injected r A s =
           12 * real (loan_repayment_years A) * m_repayment A
             + 12 * real (contribution_years A) * monthly_contribution A
         \<and> cycle_injected r' B s' =
             12 * real (max (loan_repayment_years A) (contribution_years A)) * m_repayment A
         \<and> (cycle_injected r A s = cycle_injected r' B s' \<longleftrightarrow>
              real (loan_repayment_years A) * m_repayment A
                + real (contribution_years A) * monthly_contribution A
              = real (max (loan_repayment_years A) (contribution_years A)) * m_repayment A)
         \<and> (monthly_contribution A = 0 \<and> contribution_years A \<le> loan_repayment_years A \<longrightarrow>
              cycle_injected r A s = cycle_injected r' B s'))"
proof (intro allI impI)
  fix k assume k: "k < length (scenario1_cycles st)"
  define A where "A = scenario1_cycles st ! k"
  have B: "scenario2_cycles (build_dca_cycles_from_lumpsum st) ! k = dca_cycle A"
    using k by (simp add: build_dca_eq A_def)
  have a: "cycle_injected r A s =
           12 * real (loan_repayment_years A) * m_repayment A
             + 12 * real (contribution_years A) * monthly_contribution A"
    by (simp add: cycle_injected_eq algebra_simps)
  have b: "cycle_injected r' (dca_cycle A) s' =
             12 * real (max (loan_repayment_years A) (contribution_years A)) * m_repayment A"
    by (simp add: cycle_injected_eq dca_cycle_def)
  have c: "monthly_contribution A = 0 \<and> contribution_years A \<le> loan_repayment_years A \<longrightarrow>
      cycle_injected r A s = cycle_injected r' (dca_cycle A) s'"
    unfolding a b by (simp add: max_def)
  have d: "cycle_injected r A s = cycle_injected r' (dca_cycle A) s' \<longleftrightarrow>
              real (loan_repayment_years A) * m_repayment A
                + real (contribution_years A) * monthly_contribution A
              = real (max (loan_repayment_years A) (contribution_years A)) * m_repayment A"
  proof -
    have a': "cycle_injected r A s =
        12 * (real (loan_repayment_years A) * m_repayment A
              + real (contribution_years A) * monthly_contribution A)"
      by (simp add: cycle_injected_eq)
    have b': "cycle_injected r' (dca_cycle A) s' =
        12 * (real (max (loan_repayment_years A) (contribution_years A)) * m_repayment A)"
      by (simp add: cycle_injected_eq dca_cycle_def)
    have cancel: "(12 * u = 12 * v) = (u = v)" for u v :: real by simp
    show ?thesis unfolding a' b' by (rule cancel)
  qed
  show "let A = scenario1_cycles st ! k;
          B = scenario2_cycles (build_dca_cycles_from_lumpsum st) ! k
      in cycle_injected r A s =
           12 * real (loan_repayment_years A) * m_repayment A
             + 12 * real (contribution_years A) * monthly_contribution A
         \<and> cycle_injected r' B s' =
             12 * real (max (loan_repayment_years A) (contribution_years A)) * m_repayment A
         \<and> (cycle_injected r A s = cycle_injected r' B s' \<longleftrightarrow>
              real (loan_repayment_years A) * m_repayment A
                + real (contribution_years A) * monthly_contribution A
              = real (max (loan_repayment_years A) (contribution_years A)) * m_repayment A)
         \<and> (monthly_contribution A = 0 \<and> contribution_years A \<le> loan_repayment_years A \<longrightarrow>
              cycle_injected r A s = cycle_injected r' B s')"
    unfolding Let_def B A_def [symmetric]
    using a b c d by blast
qed

theorem mirror_injected_cash_witness:
  "(let st = \<lparr> scenario1_cycles =
                 [\<lparr> loan_amount = 12000, loan_interest_rate = 0, loan_repayment_years = 2,
                    monthly_contribution = 0, contribution_years = 0, m_repayment = 500 \<rparr>],
               scenario2_cycles = [] \<rparr>;
        A = scenario1_cycles st ! 0;
        B = scenario2_cycles (build_dca_cycles_from_lumpsum st) ! 0
    in (0::nat) < length (scenario1_cycles st)
       \<and> monthly_contribution A = 0 \<and> contribution_years A \<le> loan_repayment_years A
       \<and> cycle_injected 0 A (init_state 30) = 12000
       \<and> cycle_injected 0 B (init_state 30) = 12000)"
  using mirror_injected_cash [of
      "\<lparr> scenario1_cycles =
                 [\<lparr> loan_amount = 12000, loan_interest_rate = 0, loan_repayment_years = 2,
                    monthly_contribution = 0, contribution_years = 0, m_repayment = 500 \<rparr>],
               scenario2_cycles = [] \<rparr>" 0 "init_state 30" 0 "init_state 30"]
  by (simp add: Let_def)

theorem mirror_injected_cash_counterexample:
  "add_cycle [] 0 0 0 100 1 =
     Inr [\<lparr> loan_amount = 0, loan_interest_rate = 0, loan_repayment_years = 0,
            monthly_contribution = 100, contribution_years = 1, m_repayment = 0 \<rparr>]
   \<and> cycle_injected 0
       \<lparr> loan_amount = 0, loan_interest_rate = 0, loan_repayment_years = 0,
         monthly_contribution = 100, contribution_years = 1, m_repayment = 0 \<rparr>
       (init_state 30) = 1200
   \<and> cycle_injected 0
       (scenario2_cycles (build_dca_cycles_from_lumpsum
          \<lparr> scenario1_cycles =
              [\<lparr> loan_amount = 0, loan_interest_rate = 0, loan_repayment_years = 0,
                 monthly_contribution = 100, contribution_years = 1, m_repayment = 0 \<rparr>],
            scenario2_cycles = [] \<rparr>) ! 0)
       (init_state 30) = 0"
  by (simp add: add_cycle_def monthly_repayment_def py_int_def cycle_injected_def sim_eval
      build_dca_eq dca_cycle_def)

text \<open>
  C5. For each cycle of scenario 1, in order, the derivation emits exactly one mirror
  cycle with \<open>loan_amount = 0\<close>, \<open>loan_interest_rate = 0\<close>, \<open>loan_repayment_years = 0\<close>,
  \<open>monthly_contribution\<close> equal to the cycle's stored repayment, \<open>contribution_years\<close> the
  larger of the cycle's two durations, and \<open>m_repayment = 0\<close>. For the cycle built from
  loan 100000 at 6 percent over 20 years with no contribution, the mirror contributes
  \<open>monthly_repayment 100000 0.06 20\<close> for 20 years and borrows nothing.
\<close>

theorem dca_mirror_cycles:
  "length (scenario2_cycles (build_dca_cycles_from_lumpsum st)) = length (scenario1_cycles st)
   \<and> scenario1_cycles (build_dca_cycles_from_lumpsum st) = scenario1_cycles st
   \<and> (\<forall>k < length (scenario1_cycles st).
        scenario2_cycles (build_dca_cycles_from_lumpsum st) ! k =
          \<lparr> loan_amount = 0, loan_interest_rate = 0, loan_repayment_years = 0,
            monthly_contribution = m_repayment (scenario1_cycles st ! k),
            contribution_years = max (loan_repayment_years (scenario1_cycles st ! k))
                                     (contribution_years (scenario1_cycles st ! k)),
            m_repayment = 0 \<rparr>)
   \<and> (\<exists>rp. monthly_repayment 100000 (6 / 100) 20 = Inr rp
         \<and> add_cycle [] 100000 (6 / 100) 20 0 0 =
             Inr [\<lparr> loan_amount = 100000, loan_interest_rate = 6 / 100,
                    loan_repayment_years = 20, monthly_contribution = 0,
                    contribution_years = 0, m_repayment = rp \<rparr>]
         \<and> scenario2_cycles (build_dca_cycles_from_lumpsum
               \<lparr> scenario1_cycles =
                   [\<lparr> loan_amount = 100000, loan_interest_rate = 6 / 100,
                      loan_repayment_years = 20, monthly_contribution = 0,
                      contribution_years = 0, m_repayment = rp \<rparr>],
                 scenario2_cycles = old \<rparr>) =
             [\<lparr> loan_amount = 0, loan_interest_rate = 0, loan_repayment_years = 0,
                monthly_contribution = rp, contribution_years = 20, m_repayment = 0 \<rparr>])"
proof -
  have "\<exists>rp. monthly_repayment 100000 (6 / 100) (real (20::nat)) = Inr rp"
    by (rule monthly_repayment_form_inputs) simp_all
  then obtain rp where rp: "monthly_repayment 100000 (6 / 100) (real (20::nat)) = Inr rp"
    by blast
  have ex: "\<exists>rp. monthly_repayment 100000 (6 / 100) 20 = Inr rp
         \<and> add_cycle [] 100000 (6 / 100) 20 0 0 =
             Inr [\<lparr> loan_amount = 100000, loan_interest_rate = 6 / 100,
                    loan_repayment_years = 20, monthly_contribution = 0,
                    contribution_years = 0, m_repayment = rp \<rparr>]
         \<and> scenario2_cycles (build_dca_cycles_from_lumpsum
               \<lparr> scenario1_cycles =
                   [\<lparr> loan_amount = 100000, loan_interest_rate = 6 / 100,
                      loan_repayment_years = 20, monthly_contribution = 0,
                      contribution_years = 0, m_repayment = rp \<rparr>],
                 scenario2_cycles = old \<rparr>) =
             [\<lparr> loan_amount = 0, loan_interest_rate = 0, loan_repayment_years = 0,
                monthly_contribution = rp, contribution_years = 20, m_repayment = 0 \<rparr>]"
    using rp by (intro exI [of _ rp]) (simp add: add_cycle_def build_dca_eq dca_cycle_def)
  show ?thesis
    by (intro conjI ex) (simp_all add: build_dca_eq dca_cycle_def)
qed

theorem dca_mirror_cycles_witness:
  "(0::nat) < length [\<lparr> loan_amount = 5000, loan_interest_rate = 0, loan_repayment_years = 2,
        monthly_contribution = 10, contribution_years = 3, m_repayment = 7 \<rparr>]
   \<and> scenario2_cycles (build_dca_cycles_from_lumpsum
       \<lparr> scenario1_cycles =
           [\<lparr> loan_amount = 5000, loan_interest_rate = 0, loan_repayment_years = 2,
              monthly_contribution = 10, contribution_years = 3, m_repayment = 7 \<rparr>],
         scenario2_cycles = [] \<rparr>) ! 0 =
       \<lparr> loan_amount = 0, loan_interest_rate = 0, loan_repayment_years = 0,
         monthly_contribution = 7, contribution_years = 3, m_repayment = 0 \<rparr>"
  using dca_mirror_cycles [of "\<lparr> scenario1_cycles =
           [\<lparr> loan_amount = 5000, loan_interest_rate = 0, loan_repayment_years = 2,
              monthly_contribution = 10, contribution_years = 3, m_repayment = 7 \<rparr>],
         scenario2_cycles = [] \<rparr>"]
  by simp

text \<open>
  C6. A cycle with \<open>loan_repayment_years = contribution_years = 0\<close> produces no year
  record and adds exactly its \<open>loan_amount\<close> to the running portfolio, with no growth
  applied; the single-cycle strategy with loan amount 1000 and both durations 0 returns
  no year record and a final portfolio of 1000, at any investment rate.
\<close>

theorem zero_duration_cycle:
  "(loan_repayment_years c = 0 \<and> contribution_years c = 0 \<longrightarrow>
      cycle_step r c s = s\<lparr> total_portfolio := total_portfolio s + loan_amount c \<rparr>
    \<and> simulate_multi_cycle_strategy_detailed (cs @ [c]) a age =
        (simulate_multi_cycle_strategy_detailed cs a age)
          \<lparr> final_portfolio :=
              final_portfolio (simulate_multi_cycle_strategy_detailed cs a age) + loan_amount c,
            final_net_gains :=
              final_net_gains (simulate_multi_cycle_strategy_detailed cs a age) + loan_amount c \<rparr>)
   \<and> details_out (simulate_multi_cycle_strategy_detailed
        [\<lparr> loan_amount = 1000, loan_interest_rate = 0, loan_repayment_years = 0,
           monthly_contribution = 0, contribution_years = 0, m_repayment = mr \<rparr>] a age) = []
   \<and> final_portfolio (simulate_multi_cycle_strategy_detailed
        [\<lparr> loan_amount = 1000, loan_interest_rate = 0, loan_repayment_years = 0,
           monthly_contribution = 0, contribution_years = 0, m_repayment = mr \<rparr>] a age) = 1000"
proof -
  have gen: "cycle_step r' d s' = s'\<lparr> total_portfolio := total_portfolio s' + loan_amount d \<rparr>"
    if "loan_repayment_years d = 0" "contribution_years d = 0" for d r' s'
    using that zero_duration_cycle_step [of d r' s']
    by (simp add: cycle_length_years_def invest_loan_def)
  have one: "cycle_step r'
        \<lparr> loan_amount = 1000, loan_interest_rate = 0, loan_repayment_years = 0,
          monthly_contribution = 0, contribution_years = 0, m_repayment = mr \<rparr> s'
       = s'\<lparr> total_portfolio := total_portfolio s' + 1000 \<rparr>" for r' s'
    using gen [of "\<lparr> loan_amount = 1000, loan_interest_rate = 0, loan_repayment_years = 0,
          monthly_contribution = 0, contribution_years = 0, m_repayment = mr \<rparr>" r' s']
    by simp
  show ?thesis
    by (simp add: gen one simulate_multi_cycle_strategy_detailed_def Let_def run_cycles_snoc
        run_cycles_Cons run_cycles_Nil init_state_def)
qed

theorem zero_duration_cycle_witness:
  "simulate_multi_cycle_strategy_detailed
     [\<lparr> loan_amount = 500, loan_interest_rate = 0, loan_repayment_years = 0,
        monthly_contribution = 0, contribution_years = 1, m_repayment = 0 \<rparr>,
      \<lparr> loan_amount = 70, loan_interest_rate = 0, loan_repayment_years = 0,
        monthly_contribution = 30, contribution_years = 0, m_repayment = 0 \<rparr>] 0 40
   = (simulate_multi_cycle_strategy_detailed
     [\<lparr> loan_amount = 500, loan_interest_rate = 0, loan_repayment_years = 0,
        monthly_contribution = 0, contribution_years = 1, m_repayment = 0 \<rparr>] 0 40)
       \<lparr> final_portfolio := 570, final_net_gains := 570 \<rparr>
   \<and> loan_repayment_years \<lparr> loan_amount = 70, loan_interest_rate = 0, loan_repayment_years = 0,
        monthly_contribution = 30, contribution_years = 0, m_repayment = 0 \<rparr> = 0
   \<and> length (details_out (simulate_multi_cycle_strategy_detailed
     [\<lparr> loan_amount = 500, loan_interest_rate = 0, loan_repayment_years = 0,
        monthly_contribution = 0, contribution_years = 1, m_repayment = 0 \<rparr>] 0 40)) = 1"
  using zero_duration_cycle [of "\<lparr> loan_amount = 70, loan_interest_rate = 0, loan_repayment_years = 0,
        monthly_contribution = 30, contribution_years = 0, m_repayment = 0 \<rparr>" _ _
      "[\<lparr> loan_amount = 500, loan_interest_rate = 0, loan_repayment_years = 0,
        monthly_contribution = 0, contribution_years = 1, m_repayment = 0 \<rparr>]" 0 40]
  apply (simp add: simulate_multi_cycle_strategy_detailed_def rate_zero run_cycles_Cons run_cycles_Nil
      cycle_step_def cycle_length_years_def run_years_Suc run_years_0 year_step_eq init_state_def
      invest_loan_def year_pf_def year_oop_def contrib_of_def repay_of_def)
  done

text \<open>
  C7. For an empty strategy, any annual investment rate and any start age, the
  simulation returns empty ages and net-gains sequences, an empty sequence of year
  records, a final portfolio of 0 and final net gains of 0.
\<close>

theorem empty_strategy_result:
  "simulate_multi_cycle_strategy_detailed [] annual_investment_rate start_age =
     \<lparr> ages_out = [], net_gains_out = [], final_portfolio = 0, final_net_gains = 0,
       details_out = [] \<rparr>"
  by (simp add: simulate_multi_cycle_strategy_detailed_def run_cycles_def init_state_def)

text \<open>
  C8. For every annual rate \<open>a > -1\<close>, compounding the principal 1 for 12 months at the
  converted monthly rate gives back the annual factor \<open>1 + a\<close> (exactly, over the reals).
\<close>

theorem twelve_months_reproduce_annual:
  "-1 < a \<Longrightarrow> compound_growth 1 (annual_rate2mensual_rate a) 12 = 1 + a"
  using twelfth_root_power [of "1 + a"]
  by (simp add: compound_growth_def annual_rate2mensual_rate_def)

theorem twelve_months_reproduce_annual_witness:
  "-1 < (3::real) \<and> compound_growth 1 (annual_rate2mensual_rate 3) 12 = 1 + 3"
  using twelve_months_reproduce_annual [of 3] by simp

text \<open>
  C9. The sequence of year records is portfolio-continuous. A record in the same cycle
  as the record before it starts with the portfolio that record ended with. The first
  record of a cycle starts with the portfolio the record before it ended with (0 if there
  is none) plus the loan amounts of its own cycle and of the cycles between the two, all
  of which have no years. The cumulative injected total is the sum of the repayments and
  contributions of the cycles: no loan amount enters it.
\<close>

theorem portfolio_continuity:
  "(let R = simulate_multi_cycle_strategy_detailed cs a age; D = details_out R;
        ow = owners cs in
     length D = length ow
     \<and> (\<forall>i. Suc i < length D \<and> ow ! Suc i = ow ! i \<longrightarrow>
          portfolio_before (D ! Suc i) = portfolio_after (D ! i))
     \<and> (\<forall>i. Suc i < length D \<and> ow ! Suc i \<noteq> ow ! i \<longrightarrow>
          ow ! i < ow ! Suc i
          \<and> portfolio_before (D ! Suc i) =
              portfolio_after (D ! i) + loans cs (Suc (ow ! i)) (Suc (ow ! Suc i))
          \<and> (\<forall>k. ow ! i < k \<and> k < ow ! Suc i \<longrightarrow> cycle_length_years (cs ! k) = 0))
     \<and> (D \<noteq> [] \<longrightarrow>
          portfolio_before (D ! 0) = 0 + loans cs 0 (Suc (ow ! 0))
          \<and> (\<forall>k. k < ow ! 0 \<longrightarrow> cycle_length_years (cs ! k) = 0))
     \<and> final_portfolio R - final_net_gains R =
          (\<Sum>c\<leftarrow>cs. 12 * (real (loan_repayment_years c) * m_repayment c
                           + real (contribution_years c) * monthly_contribution c)))"
proof -
  define r where "r = annual_rate2mensual_rate a"
  define D where "D = annual_details (run_cycles r cs (init_state age))"
  have len: "length D = length (owners cs)"
    unfolding D_def by (rule details_length)
  have same: "portfolio_before (D ! Suc i) = portfolio_after (D ! i)"
    if "Suc i < length D" "owners cs ! Suc i = owners cs ! i" for i
    using before_successor [of i r cs age] that by (simp add: D_def loans_empty)
  have diff: "owners cs ! i < owners cs ! Suc i
      \<and> portfolio_before (D ! Suc i) =
          portfolio_after (D ! i) + loans cs (Suc (owners cs ! i)) (Suc (owners cs ! Suc i))
      \<and> (\<forall>k. owners cs ! i < k \<and> k < owners cs ! Suc i \<longrightarrow> cycle_length_years (cs ! k) = 0)"
    if "Suc i < length D" "owners cs ! Suc i \<noteq> owners cs ! i" for i
  proof (intro conjI allI impI)
    show "owners cs ! i < owners cs ! Suc i"
      using owners_step_le [of i cs] that len by simp
    show "portfolio_before (D ! Suc i) =
          portfolio_after (D ! i) + loans cs (Suc (owners cs ! i)) (Suc (owners cs ! Suc i))"
      using before_successor [of i r cs age] that(1) by (simp add: D_def)
    fix k assume "owners cs ! i < k \<and> k < owners cs ! Suc i"
    then show "cycle_length_years (cs ! k) = 0"
      using owners_between_zero [of i cs k] that(1) len by simp
  qed
  have first: "portfolio_before (D ! 0) = 0 + loans cs 0 (Suc (owners cs ! 0))
      \<and> (\<forall>k. k < owners cs ! 0 \<longrightarrow> cycle_length_years (cs ! k) = 0)"
    if "D \<noteq> []"
  proof (intro conjI allI impI)
    show "portfolio_before (D ! 0) = 0 + loans cs 0 (Suc (owners cs ! 0))"
      using before_first [of r cs age] that by (simp add: D_def)
    have "owners cs \<noteq> []" using that len by auto
    then show "cycle_length_years (cs ! k) = 0" if "k < owners cs ! 0" for k
      using that by (rule owners_before_first_zero)
  qed
  have inj: "final_portfolio (simulate_multi_cycle_strategy_detailed cs a age)
        - final_net_gains (simulate_multi_cycle_strategy_detailed cs a age) =
      (\<Sum>c\<leftarrow>cs. 12 * (real (loan_repayment_years c) * m_repayment c
                       + real (contribution_years c) * monthly_contribution c))"
    by (simp add: simulate_multi_cycle_strategy_detailed_def Let_def run_cycles_injected
        init_state_def)
  show ?thesis
    unfolding Let_def inj details_simulation r_def [symmetric] D_def [symmetric]
    using len same diff first by blast
qed

theorem portfolio_continuity_witness:
  "(let cs = [\<lparr> loan_amount = 1000, loan_interest_rate = 0, loan_repayment_years = 0,
               monthly_contribution = 100, contribution_years = 2, m_repayment = 0 \<rparr>,
             \<lparr> loan_amount = 70, loan_interest_rate = 0, loan_repayment_years = 0,
               monthly_contribution = 0, contribution_years = 0, m_repayment = 0 \<rparr>,
             \<lparr> loan_amount = 500, loan_interest_rate = 0, loan_repayment_years = 0,
               monthly_contribution = 0, contribution_years = 1, m_repayment = 0 \<rparr>];
        D = details_out (simulate_multi_cycle_strategy_detailed cs 0 30)
    in owners cs = [0, 0, 2] \<and> length D = 3
       \<and> portfolio_before (D ! 0) = 1000
       \<and> portfolio_after (D ! 0) = 2200 \<and> portfolio_before (D ! 1) = 2200
       \<and> portfolio_after (D ! 1) = 3400 \<and> loans cs 1 3 = 570
       \<and> portfolio_before (D ! 2) = 3400 + 570)"
  using portfolio_continuity [of
      "[\<lparr> loan_amount = 1000, loan_interest_rate = 0, loan_repayment_years = 0,
               monthly_contribution = 100, contribution_years = 2, m_repayment = 0 \<rparr>,
             \<lparr> loan_amount = 70, loan_interest_rate = 0, loan_repayment_years = 0,
               monthly_contribution = 0, contribution_years = 0, m_repayment = 0 \<rparr>,
             \<lparr> loan_amount = 500, loan_interest_rate = 0, loan_repayment_years = 0,
               monthly_contribution = 0, contribution_years = 1, m_repayment = 0 \<rparr>]" 0 30]
  by (simp add: sim_eval owners_def loans_def eval_nat_numeral Let_def upt_rec)

text \<open>
  C10. If every cycle has non-negative \<open>loan_amount\<close>, \<open>monthly_contribution\<close> and
  \<open>m_repayment\<close> and the annual investment rate is at least 0, then the monthly rate is at
  least 0 and, after every monthly step of every year of every cycle, the running
  portfolio, the year's out-of-pocket total and the cumulative injected total are
  non-negative; every year record has non-negative \<open>out_of_pocket_year\<close>,
  \<open>portfolio_before\<close> and \<open>portfolio_after\<close>; and the final portfolio is non-negative.
\<close>

theorem nothing_negative:
  assumes "\<forall>c \<in> set cs. 0 \<le> loan_amount c \<and> 0 \<le> monthly_contribution c \<and> 0 \<le> m_repayment c"
    and "0 \<le> a"
  shows "0 \<le> annual_rate2mensual_rate a
     \<and> (\<forall>j y k. j < length cs \<and> y < cycle_length_years (cs ! j) \<and> k \<le> 12 \<longrightarrow>
          (let m = annual_rate2mensual_rate a;
               s = run_years (cs ! j) m y
                     (invest_loan (cs ! j) (run_cycles m (take j cs) (init_state age)));
               st = run_months (cs ! j) m y k (0, total_portfolio s)
           in 0 \<le> snd st \<and> 0 \<le> fst st \<and> 0 \<le> total_external_investment s
              \<and> 0 \<le> total_external_investment s + fst st))
     \<and> (\<forall>x \<in> set (details_out (simulate_multi_cycle_strategy_detailed cs a age)).
          0 \<le> out_of_pocket_year x \<and> 0 \<le> portfolio_before x \<and> 0 \<le> portfolio_after x)
     \<and> 0 \<le> final_portfolio (simulate_multi_cycle_strategy_detailed cs a age)"
proof -
  define m where "m = annual_rate2mensual_rate a"
  have m0: "0 \<le> m" unfolding m_def using assms(2) by (rule rate_nonneg)
  have mid: "0 \<le> snd (run_months (cs ! j) m y k (0, total_portfolio s))
       \<and> 0 \<le> fst (run_months (cs ! j) m y k (0, total_portfolio s))
       \<and> 0 \<le> total_external_investment s
       \<and> 0 \<le> total_external_investment s + fst (run_months (cs ! j) m y k (0, total_portfolio s))"
    if j: "j < length cs"
      and s: "s = run_years (cs ! j) m y
                (invest_loan (cs ! j) (run_cycles m (take j cs) (init_state age)))"
    for j y k s
  proof -
    have cj: "0 \<le> loan_amount (cs ! j)" "0 \<le> monthly_contribution (cs ! j)"
        "0 \<le> m_repayment (cs ! j)"
      using assms(1) j by simp_all
    have "\<forall>c \<in> set (take j cs).
        0 \<le> loan_amount c \<and> 0 \<le> monthly_contribution c \<and> 0 \<le> m_repayment c"
      using assms(1) by (auto dest: in_set_takeD)
    then have "nonneg_state (run_cycles m (take j cs) (init_state age))"
      using m0 init_state_nonneg by (rule run_cycles_nonneg)
    then have "nonneg_state s"
      unfolding s by (intro run_years_nonneg invest_loan_nonneg cj m0)
    then have p: "0 \<le> total_portfolio s" and t: "0 \<le> total_external_investment s"
      by (simp_all add: nonneg_state_def)
    from run_months_nonneg [OF cj(3) cj(2) m0 order_refl p, of y k] t
    show ?thesis by simp
  qed
  have fin: "nonneg_state (run_cycles m cs (init_state age))"
    using assms(1) m0 init_state_nonneg by (rule run_cycles_nonneg)
  have recs: "\<forall>x \<in> set (details_out (simulate_multi_cycle_strategy_detailed cs a age)).
          0 \<le> out_of_pocket_year x \<and> 0 \<le> portfolio_before x \<and> 0 \<le> portfolio_after x"
    using fin by (simp add: details_simulation m_def nonneg_state_def list_all_iff)
  have fp: "0 \<le> final_portfolio (simulate_multi_cycle_strategy_detailed cs a age)"
    using fin
    by (simp add: simulate_multi_cycle_strategy_detailed_def Let_def m_def nonneg_state_def)
  show ?thesis
    unfolding Let_def m_def [symmetric]
    using m0 recs fp mid by (auto simp: m_def)
qed

theorem nothing_negative_witness:
  "(0::real) \<le> loan_amount \<lparr> loan_amount = 1000, loan_interest_rate = 0,
       loan_repayment_years = 0, monthly_contribution = 100, contribution_years = 1,
       m_repayment = 0 \<rparr>
   \<and> (0::real) \<le> 0
   \<and> final_portfolio (simulate_multi_cycle_strategy_detailed
        [\<lparr> loan_amount = 1000, loan_interest_rate = 0, loan_repayment_years = 0,
           monthly_contribution = 100, contribution_years = 1, m_repayment = 0 \<rparr>] 0 30) = 2200
   \<and> 0 \<le> final_portfolio (simulate_multi_cycle_strategy_detailed
        [\<lparr> loan_amount = 1000, loan_interest_rate = 0, loan_repayment_years = 0,
           monthly_contribution = 100, contribution_years = 1, m_repayment = 0 \<rparr>] 0 30)"
  using nothing_negative [of
      "[\<lparr> loan_amount = 1000, loan_interest_rate = 0, loan_repayment_years = 0,
           monthly_contribution = 100, contribution_years = 1, m_repayment = 0 \<rparr>]" 0 30]
  by (simp add: sim_eval)

end
